theory Spec2Isabelle
  imports Complex_Main "HOL-Library.Word"
begin

unbundle bit_operations_syntax

section \<open>Linear algebra kernel (math3d)\<close>

text \<open>
  The C++ type \<open>float\<close> is modelled by \<open>real\<close>. The embedding of the program computes
  exactly, without rounding, infinities or NaN; where the source divides, the theorems
  establish or assume that the divisor is non-zero. Rounding to IEEE binary32 is written
  out in two places: in the conversion of a shaded channel to eight bits, which truncates
  a rounded product, and in a second embedding of the pixel computations of the
  rasterizer, with the suffix \<open>_f32\<close>, in which every operation is rounded; the latter is
  used where a claim speaks of the values the implementation computes.
\<close>

text \<open>\<open>struct vec3d { float x, y, z; }\<close>; the fields are named \<open>vx\<close>, \<open>vy\<close>, \<open>vz\<close>
  so that \<open>x\<close>, \<open>y\<close>, \<open>z\<close> stay available as variables.\<close>

record vec3d =
  vx :: real
  vy :: real
  vz :: real

definition vsub :: "vec3d \<Rightarrow> vec3d \<Rightarrow> vec3d" where
  "vsub a r = \<lparr>vx = vx a - vx r, vy = vy a - vy r, vz = vz a - vz r\<rparr>"

definition vdiv :: "vec3d \<Rightarrow> real \<Rightarrow> vec3d" where
  "vdiv a s = \<lparr>vx = vx a / s, vy = vy a / s, vz = vz a / s\<rparr>"

definition vlength :: "vec3d \<Rightarrow> real" where
  "vlength a = sqrt (vx a * vx a + vy a * vy a + vz a * vz a)"

definition normalized :: "vec3d \<Rightarrow> vec3d" where
  "normalized a = vdiv a (vlength a)"

definition dot :: "vec3d \<Rightarrow> vec3d \<Rightarrow> real" where
  "dot a b = vx a * vx b + vy a * vy b + vz a * vz b"

definition cross :: "vec3d \<Rightarrow> vec3d \<Rightarrow> vec3d" where
  "cross a b = \<lparr>vx = vy a * vz b - vz a * vy b,
                 vy = vz a * vx b - vx a * vz b,
                 vz = vx a * vy b - vy a * vx b\<rparr>"

text \<open>\<open>struct mat4 { float m[4][4]; }\<close>, column-major: \<open>m c r\<close> is \<open>m[c][r]\<close>.
  Only indices below 4 are ever read.\<close>

type_synonym mat4 = "nat \<Rightarrow> nat \<Rightarrow> real"

text \<open>\<open>mat4 r{}\<close>: all entries zero.\<close>

definition mat4_zero :: mat4 where
  "mat4_zero = (\<lambda>c r. 0)"

text \<open>The assignment \<open>r.m[c][r] = v\<close>.\<close>

definition mset :: "mat4 \<Rightarrow> nat \<Rightarrow> nat \<Rightarrow> real \<Rightarrow> mat4" where
  "mset m c r v = m(c := (m c)(r := v))"

text \<open>\<open>mat4::identity\<close>: the loop \<open>for (i = 0; i < 4; i++) r.m[i][i] = 1.0f\<close>.\<close>

definition identity :: mat4 where
  "identity = fold (\<lambda>i m. mset m i i 1) [0, 1, 2, 3] mat4_zero"

text \<open>\<open>mat4::operator*(const vec3d&)\<close>: transforms a point (w = 1) and divides by w.\<close>

definition hom_w :: "mat4 \<Rightarrow> vec3d \<Rightarrow> real" where
  "hom_w m v = vx v * m 0 3 + vy v * m 1 3 + vz v * m 2 3 + m 3 3"

definition mul_point :: "mat4 \<Rightarrow> vec3d \<Rightarrow> vec3d" where
  "mul_point m v =
     (let x = vx v * m 0 0 + vy v * m 1 0 + vz v * m 2 0 + m 3 0;
          y = vx v * m 0 1 + vy v * m 1 1 + vz v * m 2 1 + m 3 1;
          z = vx v * m 0 2 + vy v * m 1 2 + vz v * m 2 2 + m 3 2;
          w = hom_w m v
      in \<lparr>vx = x / w, vy = y / w, vz = z / w\<rparr>)"

text \<open>\<open>mat4::transform_dir\<close>: transforms a direction (w = 0), no divide.\<close>

definition transform_dir :: "mat4 \<Rightarrow> vec3d \<Rightarrow> vec3d" where
  "transform_dir m v =
     \<lparr>vx = vx v * m 0 0 + vy v * m 1 0 + vz v * m 2 0,
      vy = vx v * m 0 1 + vy v * m 1 1 + vz v * m 2 1,
      vz = vx v * m 0 2 + vy v * m 1 2 + vz v * m 2 2\<rparr>"

definition rotateY :: "real \<Rightarrow> mat4" where
  "rotateY a =
     (let r = identity; c = cos a; s = sin a;
          r = mset r 0 0 c;
          r = mset r 2 0 s;
          r = mset r 0 2 (- s);
          r = mset r 2 2 c
      in r)"

definition rotateX :: "real \<Rightarrow> mat4" where
  "rotateX a =
     (let r = identity; c = cos a; s = sin a;
          r = mset r 1 1 c;
          r = mset r 2 1 s;
          r = mset r 1 2 (- s);
          r = mset r 2 2 c
      in r)"

definition perspective :: "real \<Rightarrow> real \<Rightarrow> real \<Rightarrow> real \<Rightarrow> mat4" where
  "perspective fov aspect near far =
     (let r = mat4_zero;
          f = 1 / tan (fov * 0.5);
          r = mset r 0 0 (f / aspect);
          r = mset r 1 1 f;
          r = mset r 2 2 ((far + near) / (near - far));
          r = mset r 2 3 (- 1);
          r = mset r 3 2 ((2 * far * near) / (near - far))
      in r)"

definition look_at :: "vec3d \<Rightarrow> vec3d \<Rightarrow> vec3d \<Rightarrow> mat4" where
  "look_at eye target up =
     (let f = normalized (vsub target eye);
          r = normalized (cross f up);
          u = cross r f;
          m = mat4_zero;
          m = mset m 0 0 (vx r); m = mset m 1 0 (vy r); m = mset m 2 0 (vz r);
          m = mset m 0 1 (vx u); m = mset m 1 1 (vy u); m = mset m 2 1 (vz u);
          m = mset m 0 2 (- vx f); m = mset m 1 2 (- vy f); m = mset m 2 2 (- vz f);
          m = mset m 3 0 (- dot r eye);
          m = mset m 3 1 (- dot u eye);
          m = mset m 3 2 (dot f eye);
          m = mset m 3 3 1
      in m)"

section \<open>Rounding to binary32\<close>

text \<open>
  Rounding to IEEE binary32: round to nearest, ties to even, 24 significant bits, with the
  fixed spacing \<open>2 powi - 149\<close> below \<open>2 powi - 126\<close> (gradual underflow). Overflow to
  infinity and NaN are not modelled: the exponent is not bounded above.
\<close>

text \<open>Rounding to the nearest integer, ties to even.\<close>

definition rne :: "real \<Rightarrow> int" where
  "rne x =
     (let n = \<lfloor>x\<rfloor>; r = x - of_int n
      in if r < 1 / 2 then n else if 1 / 2 < r then n + 1
         else if even n then n else n + 1)"

text \<open>The binary exponent \<open>k\<close> of \<open>x > 0\<close>, with \<open>2 powi k \<le> x < 2 powi (k + 1)\<close>, found by
  halving or doubling at most \<open>n\<close> times.\<close>

fun expo :: "nat \<Rightarrow> real \<Rightarrow> int" where
  "expo 0 x = 0"
| "expo (Suc n) x =
     (if 2 \<le> x then expo n (x / 2) + 1 else if x < 1 then expo n (x * 2) - 1 else 0)"

definition f32 :: "real \<Rightarrow> real" where
  "f32 x =
     (if x = 0 then 0
      else
        let e = max (- 126) (expo 300 \<bar>x\<bar>) - 23
        in of_int (rne (x / 2 powi e)) * 2 powi e)"

definition fadd :: "real \<Rightarrow> real \<Rightarrow> real" where
  "fadd a b = f32 (a + b)"

definition fsub :: "real \<Rightarrow> real \<Rightarrow> real" where
  "fsub a b = f32 (a - b)"

definition fmul :: "real \<Rightarrow> real \<Rightarrow> real" where
  "fmul a b = f32 (a * b)"

definition fdiv :: "real \<Rightarrow> real \<Rightarrow> real" where
  "fdiv a b = f32 (a / b)"

section \<open>Framebuffer\<close>

definition W :: int where
  "W = 1280"

definition H :: int where
  "H = 720"

definition FLT_MAX :: real where
  "FLT_MAX = 340282346638528859811704183484516925440"

text \<open>
  The two static arrays \<open>fb[W * H]\<close> and \<open>db[W * H]\<close>, as stores from index to value.
  The cells of the arrays are the indices \<open>0 \<le> i < W * H\<close>; an access at any other index
  is an out-of-bounds access, which the operations below report as \<open>None\<close>.
\<close>

record framebuffer =
  fb :: "int \<Rightarrow> 32 word"
  db :: "int \<Rightarrow> real"

text \<open>Static storage is zero-initialised.\<close>

definition fb_init :: framebuffer where
  "fb_init = \<lparr>fb = (\<lambda>i. 0), db = (\<lambda>i. 0)\<rparr>"

text \<open>\<open>fb_clear\<close>: the loop over \<open>0 \<le> i < W * H\<close> in closed form.\<close>

definition fb_clear :: "32 word \<Rightarrow> framebuffer \<Rightarrow> framebuffer" where
  "fb_clear color s =
     \<lparr>fb = (\<lambda>i. if 0 \<le> i \<and> i < W * H then color else fb s i),
      db = (\<lambda>i. if 0 \<le> i \<and> i < W * H then FLT_MAX else db s i)\<rparr>"

definition fb_set :: "int \<Rightarrow> int \<Rightarrow> real \<Rightarrow> 32 word \<Rightarrow> framebuffer \<Rightarrow> framebuffer option" where
  "fb_set x y depth color s =
     (if x < 0 \<or> x \<ge> W \<or> y < 0 \<or> y \<ge> H then Some s
      else
        let idx = y * W + x in
        if idx < 0 \<or> idx \<ge> W * H then None
        else if depth < db s idx
          then Some (s\<lparr>db := (db s)(idx := depth), fb := (fb s)(idx := color)\<rparr>)
          else Some s)"

text \<open>What the presentation step reads at pixel \<open>(x, y)\<close>.\<close>

definition pixel_color :: "int \<Rightarrow> int \<Rightarrow> framebuffer \<Rightarrow> 32 word" where
  "pixel_color x y s = fb s (y * W + x)"

text \<open>A \<open>for\<close> loop over the values of a list, stopping at the first failed access.\<close>

fun for_each :: "('a \<Rightarrow> 's \<Rightarrow> 's option) \<Rightarrow> 'a list \<Rightarrow> 's \<Rightarrow> 's option" where
  "for_each body [] s = Some s"
| "for_each body (j # js) s =
     (case body j s of None \<Rightarrow> None | Some s' \<Rightarrow> for_each body js s')"

text \<open>A sequence of fragments \<open>(x, y, depth, color)\<close> passed to \<open>fb_set\<close> in order.\<close>

definition write_fragments ::
  "(int \<times> int \<times> real \<times> 32 word) list \<Rightarrow> framebuffer \<Rightarrow> framebuffer option" where
  "write_fragments fs s = for_each (\<lambda>(x, y, d, c). fb_set x y d c) fs s"

section \<open>Rasterizer\<close>

record Vertex =
  pos :: vec3d
  depth :: real
  color :: "32 word"

definition edge :: "real \<Rightarrow> real \<Rightarrow> real \<Rightarrow> real \<Rightarrow> real \<Rightarrow> real \<Rightarrow> real" where
  "edge a_x a_y b_x b_y p_x p_y = (b_x - a_x) * (p_y - a_y) - (b_y - a_y) * (p_x - a_x)"

definition to_screen :: "real \<Rightarrow> int \<Rightarrow> real" where
  "to_screen ndc dimen = (ndc * 0.5 + 0.5) * real_of_int dimen"

text \<open>The conversion \<open>(int)f\<close> truncates towards zero. C++ leaves it undefined when the
  truncated value is not an \<open>int\<close>; the model then returns \<open>INT_MIN\<close>, the result of the
  x86 conversion instruction.\<close>

definition to_int :: "real \<Rightarrow> int" where
  "to_int r =
     (let t = (if 0 \<le> r then \<lfloor>r\<rfloor> else \<lceil>r\<rceil>)
      in if - 2147483648 \<le> t \<and> t \<le> 2147483647 then t else - 2147483648)"

text \<open>The conversion \<open>(uint8_t)f\<close>: truncation; C++ defines it only when the truncated
  value is in \<open>0..255\<close>, and the model keeps the low eight bits of \<open>(int)f\<close> otherwise.\<close>

definition to_uint8 :: "real \<Rightarrow> 8 word" where
  "to_uint8 r = word_of_int (to_int r)"

text \<open>\<open>(c >> k) & 0xff\<close>, converted to \<open>float\<close>.\<close>

definition chan :: "nat \<Rightarrow> 32 word \<Rightarrow> real" where
  "chan k c = real (unat (drop_bit k c AND 0xff))"

text \<open>\<open>0xFF000000 | (r << 16) | (g << 8) | b\<close>.\<close>

definition pack :: "8 word \<Rightarrow> 8 word \<Rightarrow> 8 word \<Rightarrow> 32 word" where
  "pack r g b = 0xFF000000 OR push_bit 16 (ucast r) OR push_bit 8 (ucast g) OR ucast b"

definition screen_x :: "Vertex \<Rightarrow> real" where
  "screen_x v = to_screen (vx (pos v)) W"

definition screen_y :: "Vertex \<Rightarrow> real" where
  "screen_y v = to_screen (- vy (pos v)) H"

text \<open>The edge function of the three screen-space vertices: the cull test and \<open>area\<close>.\<close>

definition tri_area :: "Vertex \<Rightarrow> Vertex \<Rightarrow> Vertex \<Rightarrow> real" where
  "tri_area v0 v1 v2 =
     edge (screen_x v0) (screen_y v0) (screen_x v1) (screen_y v1) (screen_x v2) (screen_y v2)"

text \<open>The bounding box \<open>(minx, maxx, miny, maxy)\<close>.\<close>

definition bbox :: "Vertex \<Rightarrow> Vertex \<Rightarrow> Vertex \<Rightarrow> int \<times> int \<times> int \<times> int" where
  "bbox v0 v1 v2 =
     (let sx0 = screen_x v0; sy0 = screen_y v0;
          sx1 = screen_x v1; sy1 = screen_y v1;
          sx2 = screen_x v2; sy2 = screen_y v2;
          minx = to_int (max 0 (min sx0 (min sx1 sx2)));
          maxx = to_int (min (real_of_int (W - 1)) (max sx0 (max sx1 sx2)));
          miny = to_int (max 0 (min sy0 (min sy1 sy2)));
          maxy = to_int (min (real_of_int (H - 1)) (max sy0 (max sy1 sy2)))
      in (minx, maxx, miny, maxy))"

text \<open>The three edge values \<open>(w0, w1, w2)\<close> of the centre of pixel \<open>(x, y)\<close>.\<close>

definition edge_values :: "Vertex \<Rightarrow> Vertex \<Rightarrow> Vertex \<Rightarrow> int \<Rightarrow> int \<Rightarrow> real \<times> real \<times> real" where
  "edge_values v0 v1 v2 x y =
     (let px = real_of_int x + 0.5; py = real_of_int y + 0.5;
          w0 = edge (screen_x v1) (screen_y v1) (screen_x v2) (screen_y v2) px py;
          w1 = edge (screen_x v2) (screen_y v2) (screen_x v0) (screen_y v0) px py;
          w2 = edge (screen_x v0) (screen_y v0) (screen_x v1) (screen_y v1) px py
      in (w0, w1, w2))"

definition interp_depth :: "real \<Rightarrow> real \<Rightarrow> real \<Rightarrow> Vertex \<Rightarrow> Vertex \<Rightarrow> Vertex \<Rightarrow> real" where
  "interp_depth w0 w1 w2 v0 v1 v2 = w0 * depth v0 + w1 * depth v1 + w2 * depth v2"

definition interp_color :: "real \<Rightarrow> real \<Rightarrow> real \<Rightarrow> Vertex \<Rightarrow> Vertex \<Rightarrow> Vertex \<Rightarrow> 32 word" where
  "interp_color w0 w1 w2 v0 v1 v2 =
     (let r = to_uint8 (w0 * chan 16 (color v0) + w1 * chan 16 (color v1) + w2 * chan 16 (color v2));
          g = to_uint8 (w0 * chan 8 (color v0) + w1 * chan 8 (color v1) + w2 * chan 8 (color v2));
          b = to_uint8 (w0 * chan 0 (color v0) + w1 * chan 0 (color v1) + w2 * chan 0 (color v2))
      in pack r g b)"

text \<open>The body of the inner loop of \<open>draw_triangle\<close>.\<close>

definition draw_pixel ::
  "Vertex \<Rightarrow> Vertex \<Rightarrow> Vertex \<Rightarrow> real \<Rightarrow> int \<Rightarrow> int \<Rightarrow> framebuffer \<Rightarrow> framebuffer option" where
  "draw_pixel v0 v1 v2 area y x s =
     (case edge_values v0 v1 v2 x y of
        (w0, w1, w2) \<Rightarrow>
          if w0 < 0 \<or> w1 < 0 \<or> w2 < 0 then Some s
          else
            let w0 = w0 / area; w1 = w1 / area; w2 = w2 / area
            in fb_set x y (interp_depth w0 w1 w2 v0 v1 v2) (interp_color w0 w1 w2 v0 v1 v2) s)"

definition draw_triangle :: "Vertex \<Rightarrow> Vertex \<Rightarrow> Vertex \<Rightarrow> framebuffer \<Rightarrow> framebuffer option" where
  "draw_triangle v0 v1 v2 s =
     (if tri_area v0 v1 v2 \<le> 0 then Some s
      else
        case bbox v0 v1 v2 of
          (minx, maxx, miny, maxy) \<Rightarrow>
            let area = tri_area v0 v1 v2 in
            if area = 0 then Some s
            else for_each (\<lambda>y. for_each (\<lambda>x. draw_pixel v0 v1 v2 area y x) [minx..maxx])
                   [miny..maxy] s)"

section \<open>The pixel computations in binary32\<close>

text \<open>The functions of the rasterizer again, operation by operation, each result rounded
  on its own (no fused multiply-add); the vertex fields are taken to hold binary32 values
  already. An \<open>int\<close> operand is converted to \<open>float\<close> first.\<close>

definition edge_f32 :: "real \<Rightarrow> real \<Rightarrow> real \<Rightarrow> real \<Rightarrow> real \<Rightarrow> real \<Rightarrow> real" where
  "edge_f32 a_x a_y b_x b_y p_x p_y =
     fsub (fmul (fsub b_x a_x) (fsub p_y a_y)) (fmul (fsub b_y a_y) (fsub p_x a_x))"

definition to_screen_f32 :: "real \<Rightarrow> int \<Rightarrow> real" where
  "to_screen_f32 ndc dimen = fmul (fadd (fmul ndc (1 / 2)) (1 / 2)) (f32 (real_of_int dimen))"

definition screen_x_f32 :: "Vertex \<Rightarrow> real" where
  "screen_x_f32 v = to_screen_f32 (vx (pos v)) W"

definition screen_y_f32 :: "Vertex \<Rightarrow> real" where
  "screen_y_f32 v = to_screen_f32 (- vy (pos v)) H"

definition tri_area_f32 :: "Vertex \<Rightarrow> Vertex \<Rightarrow> Vertex \<Rightarrow> real" where
  "tri_area_f32 v0 v1 v2 =
     edge_f32 (screen_x_f32 v0) (screen_y_f32 v0) (screen_x_f32 v1) (screen_y_f32 v1)
       (screen_x_f32 v2) (screen_y_f32 v2)"

definition edge_values_f32 ::
  "Vertex \<Rightarrow> Vertex \<Rightarrow> Vertex \<Rightarrow> int \<Rightarrow> int \<Rightarrow> real \<times> real \<times> real" where
  "edge_values_f32 v0 v1 v2 x y =
     (let px = fadd (f32 (real_of_int x)) (1 / 2); py = fadd (f32 (real_of_int y)) (1 / 2);
          w0 = edge_f32 (screen_x_f32 v1) (screen_y_f32 v1) (screen_x_f32 v2) (screen_y_f32 v2) px py;
          w1 = edge_f32 (screen_x_f32 v2) (screen_y_f32 v2) (screen_x_f32 v0) (screen_y_f32 v0) px py;
          w2 = edge_f32 (screen_x_f32 v0) (screen_y_f32 v0) (screen_x_f32 v1) (screen_y_f32 v1) px py
      in (w0, w1, w2))"

text \<open>The weights after \<open>w0 /= area; w1 /= area; w2 /= area\<close>, with \<open>area\<close> the edge
  function of the three vertices.\<close>

definition weights_f32 ::
  "Vertex \<Rightarrow> Vertex \<Rightarrow> Vertex \<Rightarrow> int \<Rightarrow> int \<Rightarrow> real \<times> real \<times> real" where
  "weights_f32 v0 v1 v2 x y =
     (case edge_values_f32 v0 v1 v2 x y of
        (w0, w1, w2) \<Rightarrow>
          let area = tri_area_f32 v0 v1 v2
          in (fdiv w0 area, fdiv w1 area, fdiv w2 area))"




section \<open>Scene\<close>

definition cube_verts :: "vec3d list" where
  "cube_verts =
     [\<lparr>vx = -1, vy = -1, vz = -1\<rparr>, \<lparr>vx = 1, vy = -1, vz = -1\<rparr>,
      \<lparr>vx = 1, vy = 1, vz = -1\<rparr>, \<lparr>vx = -1, vy = 1, vz = -1\<rparr>,
      \<lparr>vx = -1, vy = -1, vz = 1\<rparr>, \<lparr>vx = 1, vy = -1, vz = 1\<rparr>,
      \<lparr>vx = 1, vy = 1, vz = 1\<rparr>, \<lparr>vx = -1, vy = 1, vz = 1\<rparr>]"

definition face_colors :: "32 word list" where
  "face_colors = [0xFFE74C3C, 0xFF3498DB, 0xFF2ECC71, 0xFFE67E22, 0xFFECF0F1, 0xFF9B59B6]"

definition cube_quads :: "nat list list" where
  "cube_quads =
     [[0, 3, 2, 1], [4, 5, 6, 7], [0, 4, 7, 3], [1, 2, 6, 5], [0, 1, 5, 4], [3, 7, 6, 2]]"

text \<open>\<open>cube_verts[cube_quads[f][i]]\<close>.\<close>

definition corner :: "nat \<Rightarrow> nat \<Rightarrow> vec3d" where
  "corner f i = cube_verts ! (cube_quads ! f ! i)"

text \<open>The un-normalised face normal of \<open>draw_cube\<close>, from the corners in world space.\<close>

definition face_cross :: "mat4 \<Rightarrow> nat \<Rightarrow> vec3d" where
  "face_cross model f =
     (let face_verts = map (\<lambda>i. mul_point model (corner f i)) [0, 1, 2, 3]
      in cross (vsub (face_verts ! 1) (face_verts ! 0)) (vsub (face_verts ! 2) (face_verts ! 0)))"

text \<open>\<open>std::max(0.15f, dot(normal, light_dir))\<close>; the constant \<open>0.15f\<close> is the binary32
  value nearest to 0.15.\<close>

definition face_diffuse :: "mat4 \<Rightarrow> vec3d \<Rightarrow> nat \<Rightarrow> real" where
  "face_diffuse model light_dir f =
     (let normal = normalized (face_cross model f)
      in max (f32 (15 / 100)) (dot normal light_dir))"

text \<open>The shaded colour: each channel is the binary32 product of the base channel and
  \<open>diffuse\<close>, converted to \<open>uint8_t\<close>.\<close>

definition face_shaded :: "mat4 \<Rightarrow> vec3d \<Rightarrow> nat \<Rightarrow> 32 word" where
  "face_shaded model light_dir f =
     (let diffuse = face_diffuse model light_dir f;
          fc = face_colors ! f;
          r = to_uint8 (fmul (chan 16 fc) diffuse);
          g = to_uint8 (fmul (chan 8 fc) diffuse);
          b = to_uint8 (fmul (chan 0 fc) diffuse)
      in pack r g b)"

text \<open>The manual MVP transform of one corner, keeping \<open>w\<close>: \<open>pv[i] = {...}\<close>.\<close>

definition project_vertex :: "mat4 \<Rightarrow> 32 word \<Rightarrow> vec3d \<Rightarrow> Vertex" where
  "project_vertex mvp shaded v =
     (let wx = vx v * mvp 0 0 + vy v * mvp 1 0 + vz v * mvp 2 0 + mvp 3 0;
          wy = vx v * mvp 0 1 + vy v * mvp 1 1 + vz v * mvp 2 1 + mvp 3 1;
          wz = vx v * mvp 0 2 + vy v * mvp 1 2 + vz v * mvp 2 2 + mvp 3 2;
          ww = vx v * mvp 0 3 + vy v * mvp 1 3 + vz v * mvp 2 3 + mvp 3 3
      in \<lparr>pos = \<lparr>vx = wx / ww, vy = wy / ww, vz = wz / ww\<rparr>, depth = wz / ww, color = shaded\<rparr>)"

text \<open>The array \<open>pv[4]\<close> of one face.\<close>

definition face_vertices :: "mat4 \<Rightarrow> mat4 \<Rightarrow> vec3d \<Rightarrow> nat \<Rightarrow> Vertex list" where
  "face_vertices mvp model light_dir f =
     map (\<lambda>i. project_vertex mvp (face_shaded model light_dir f) (corner f i)) [0, 1, 2, 3]"

text \<open>One iteration of the loop over the faces.\<close>

definition draw_face :: "mat4 \<Rightarrow> mat4 \<Rightarrow> vec3d \<Rightarrow> nat \<Rightarrow> framebuffer \<Rightarrow> framebuffer option" where
  "draw_face mvp model light_dir f s =
     (let pv = face_vertices mvp model light_dir f
      in case draw_triangle (pv ! 0) (pv ! 1) (pv ! 2) s of
           None \<Rightarrow> None
         | Some s' \<Rightarrow> draw_triangle (pv ! 0) (pv ! 2) (pv ! 3) s')"

definition draw_cube :: "mat4 \<Rightarrow> mat4 \<Rightarrow> vec3d \<Rightarrow> framebuffer \<Rightarrow> framebuffer option" where
  "draw_cube mvp model light_dir s = for_each (draw_face mvp model light_dir) [0, 1, 2, 3, 4, 5] s"

section \<open>Facts about the kernel\<close>

lemma mset_apply: "mset m c r v c' r' = (if c' = c \<and> r' = r then v else m c' r')"
  by (simp add: mset_def)

lemma identity_apply:
  "identity c r = (if c = r \<and> c < 4 then 1 else 0)"
  by (auto simp: identity_def mset_apply mat4_zero_def)

lemma persp_near: "near - far \<noteq> 0 \<Longrightarrow>
    - near * ((far + near) / (near - far)) + 2 * far * near / (near - far) = - (near::real)"
proof -
  assume nf: "near - far \<noteq> 0"
  have "- near * ((far + near) / (near - far)) + 2 * far * near / (near - far)
        = (- near * (near - far)) / (near - far)"
    by (simp add: algebra_simps diff_divide_distrib add_divide_distrib)
  also have "\<dots> = - near" using nf by simp
  finally show ?thesis .
qed

lemma persp_far: "near - far \<noteq> 0 \<Longrightarrow>
    - far * ((far + near) / (near - far)) + 2 * far * near / (near - far) = (far::real)"
proof -
  assume nf: "near - far \<noteq> 0"
  have "- far * ((far + near) / (near - far)) + 2 * far * near / (near - far)
        = (far * (near - far)) / (near - far)"
    by (simp add: algebra_simps diff_divide_distrib add_divide_distrib)
  also have "\<dots> = far" using nf by simp
  finally show ?thesis .
qed

text \<open>
  C4. For every \<open>fov\<close> in \<open>(0, \<pi>)\<close>, \<open>aspect \<noteq> 0\<close> and \<open>0 < near < far\<close>, the point
  transform of \<open>perspective fov aspect near far\<close> sends the view-space point
  \<open>(0, 0, -near)\<close> to NDC \<open>z = -1\<close> and \<open>(0, 0, -far)\<close> to NDC \<open>z = +1\<close>, exactly in
  real arithmetic.
\<close>

theorem perspective_near_far_ndc:
  assumes "0 < fov" "fov < pi" "aspect \<noteq> 0" "0 < near" "near < far"
  shows "vz (mul_point (perspective fov aspect near far) \<lparr>vx = 0, vy = 0, vz = - near\<rparr>) = - 1
       \<and> vz (mul_point (perspective fov aspect near far) \<lparr>vx = 0, vy = 0, vz = - far\<rparr>) = 1"
proof -
  have nf: "near - far \<noteq> 0" "near \<noteq> 0" "far \<noteq> 0"
    using assms by auto
  show ?thesis
    using nf persp_near [OF nf(1)] persp_far [OF nf(1)]
    by (simp add: mul_point_def hom_w_def perspective_def mset_apply mat4_zero_def Let_def)
qed

theorem perspective_near_far_ndc_witness:
  "(0::real) < 1 \<and> (1::real) < pi \<and> (16 / 9 :: real) \<noteq> 0 \<and> (0::real) < 1 / 10 \<and> (1 / 10 :: real) < 100
   \<and> vz (mul_point (perspective 1 (16 / 9) (1 / 10) 100) \<lparr>vx = 0, vy = 0, vz = - (1 / 10)\<rparr>) = - 1
   \<and> vz (mul_point (perspective 1 (16 / 9) (1 / 10) 100) \<lparr>vx = 0, vy = 0, vz = - 100\<rparr>) = 1"
proof -
  have p: "(1::real) < pi" using pi_ge_two by linarith
  have "(0::real) < 1" "(16 / 9 :: real) \<noteq> 0" "(0::real) < 1 / 10" "(1 / 10 :: real) < 100"
    by simp_all
  with p show ?thesis
    using perspective_near_far_ndc [of 1 "16 / 9" "1 / 10" 100] by simp
qed

text \<open>
  C6. For every angle \<open>a\<close>, \<open>rotateY a\<close> has \<open>cos a\<close> at (column, row) positions (0,0)
  and (2,2), \<open>sin a\<close> at (2,0) and \<open>- sin a\<close> at (0,2); and \<open>rotateY (\<pi>/2)\<close> applied as
  a direction transform to \<open>(0, 0, -1)\<close> gives exactly \<open>(-1, 0, 0)\<close>.
\<close>

theorem rotateY_entries:
  "rotateY a 0 0 = cos a \<and> rotateY a 2 2 = cos a \<and> rotateY a 2 0 = sin a \<and> rotateY a 0 2 = - sin a
   \<and> transform_dir (rotateY (pi / 2)) \<lparr>vx = 0, vy = 0, vz = - 1\<rparr> = \<lparr>vx = - 1, vy = 0, vz = 0\<rparr>"
  by (simp add: rotateY_def transform_dir_def mset_apply identity_apply Let_def)

lemma vlength_eq_0_iff: "vlength a = 0 \<longleftrightarrow> vx a = 0 \<and> vy a = 0 \<and> vz a = 0"
proof -
  have "vx a * vx a + vy a * vy a + vz a * vz a = 0 \<longleftrightarrow> vx a = 0 \<and> vy a = 0 \<and> vz a = 0"
    by (auto simp: add_nonneg_eq_0_iff)
  then show ?thesis by (simp add: vlength_def)
qed

lemma vsub_nonzero:
  fixes target eye :: vec3d
  assumes "target \<noteq> eye"
  shows "vlength (vsub target eye) \<noteq> 0"
proof
  assume "vlength (vsub target eye) = 0"
  then have "vx target = vx eye \<and> vy target = vy eye \<and> vz target = vz eye"
    by (simp add: vlength_eq_0_iff vsub_def)
  then have "target = eye" by simp
  with assms show False by simp
qed

lemma cross_normalized: "cross (normalized a) b = vdiv (cross a b) (vlength a)"
  by (simp add: cross_def normalized_def vdiv_def diff_divide_distrib)

lemma cross_normalized_nonzero:
  assumes "vlength a \<noteq> 0" and "cross a b \<noteq> \<lparr>vx = 0, vy = 0, vz = 0\<rparr>"
  shows "vlength (cross (normalized a) b) \<noteq> 0"
proof
  assume "vlength (cross (normalized a) b) = 0"
  then have "vx (cross a b) = 0 \<and> vy (cross a b) = 0 \<and> vz (cross a b) = 0"
    using assms(1) by (auto simp: cross_normalized vlength_eq_0_iff vdiv_def)
  then have "cross a b = \<lparr>vx = 0, vy = 0, vz = 0\<rparr>" by simp
  with assms(2) show False by simp
qed

text \<open>
  C7. For every \<open>eye\<close>, \<open>target\<close> and \<open>up\<close> with \<open>target \<noteq> eye\<close> and \<open>up\<close> not parallel
  to \<open>target - eye\<close> (their cross product is not the zero vector), both normalizations of
  \<open>look_at\<close> divide by a non-zero length, the homogeneous \<open>w\<close> of the transformed \<open>eye\<close>
  is 1, and the point transform of \<open>look_at eye target up\<close> sends \<open>eye\<close> to the origin,
  exactly in real arithmetic.
\<close>

theorem look_at_eye_origin:
  assumes "target \<noteq> eye"
    and "cross (vsub target eye) up \<noteq> \<lparr>vx = 0, vy = 0, vz = 0\<rparr>"
  shows "vlength (vsub target eye) \<noteq> 0
       \<and> vlength (cross (normalized (vsub target eye)) up) \<noteq> 0
       \<and> hom_w (look_at eye target up) eye = 1
       \<and> mul_point (look_at eye target up) eye = \<lparr>vx = 0, vy = 0, vz = 0\<rparr>"
proof -
  have a: "vlength (vsub target eye) \<noteq> 0"
    using assms(1) by (rule vsub_nonzero)
  have b: "vlength (cross (normalized (vsub target eye)) up) \<noteq> 0"
    using a assms(2) by (rule cross_normalized_nonzero)
  have w: "hom_w (look_at eye target up) eye = 1"
    by (simp add: hom_w_def look_at_def mset_apply mat4_zero_def Let_def)
  have p: "mul_point (look_at eye target up) eye = \<lparr>vx = 0, vy = 0, vz = 0\<rparr>"
    by (simp add: mul_point_def hom_w_def look_at_def mset_apply mat4_zero_def Let_def dot_def
        algebra_simps)
  from a b w p show ?thesis by (intro conjI)
qed

theorem look_at_eye_origin_witness:
  "\<lparr>vx = 0, vy = 0, vz = 0\<rparr> \<noteq> \<lparr>vx = 0, vy = 0, vz = 5\<rparr>
   \<and> cross (vsub \<lparr>vx = 0, vy = 0, vz = 0\<rparr> \<lparr>vx = 0, vy = 0, vz = 5\<rparr>) \<lparr>vx = 0, vy = 1, vz = 0\<rparr>
       \<noteq> \<lparr>vx = 0, vy = 0, vz = 0\<rparr>
   \<and> vlength (vsub \<lparr>vx = 0, vy = 0, vz = 0\<rparr> \<lparr>vx = 0, vy = 0, vz = 5\<rparr>) = 5
   \<and> vlength (cross (normalized (vsub \<lparr>vx = 0, vy = 0, vz = 0\<rparr> \<lparr>vx = 0, vy = 0, vz = 5\<rparr>))
         \<lparr>vx = 0, vy = 1, vz = 0\<rparr>) = 1
   \<and> hom_w (look_at \<lparr>vx = 0, vy = 0, vz = 5\<rparr> \<lparr>vx = 0, vy = 0, vz = 0\<rparr> \<lparr>vx = 0, vy = 1, vz = 0\<rparr>)
        \<lparr>vx = 0, vy = 0, vz = 5\<rparr> = 1
   \<and> mul_point (look_at \<lparr>vx = 0, vy = 0, vz = 5\<rparr> \<lparr>vx = 0, vy = 0, vz = 0\<rparr> \<lparr>vx = 0, vy = 1, vz = 0\<rparr>)
        \<lparr>vx = 0, vy = 0, vz = 5\<rparr> = \<lparr>vx = 0, vy = 0, vz = 0\<rparr>"
proof -
  have a: "\<lparr>vx = 0, vy = 0, vz = 0\<rparr> \<noteq> \<lparr>vx = 0, vy = 0, vz = 5::real\<rparr>"
    by simp
  have b: "cross (vsub \<lparr>vx = 0, vy = 0, vz = 0\<rparr> \<lparr>vx = 0, vy = 0, vz = 5\<rparr>) \<lparr>vx = 0, vy = 1, vz = 0\<rparr>
       \<noteq> \<lparr>vx = 0, vy = 0, vz = 0\<rparr>"
    by (simp add: cross_def vsub_def)
  have c: "vlength (vsub \<lparr>vx = 0, vy = 0, vz = 0\<rparr> \<lparr>vx = 0, vy = 0, vz = 5\<rparr>) = 5"
    by (simp add: vlength_def vsub_def)
  have d: "vlength (cross (normalized (vsub \<lparr>vx = 0, vy = 0, vz = 0\<rparr> \<lparr>vx = 0, vy = 0, vz = 5\<rparr>))
         \<lparr>vx = 0, vy = 1, vz = 0\<rparr>) = 1"
    by (simp add: vlength_def vsub_def cross_def normalized_def vdiv_def)
  from a b c d look_at_eye_origin [OF a b] show ?thesis by simp
qed

section \<open>Facts about binary32 rounding\<close>

lemma expo_eq:
  "0 < x \<Longrightarrow> 2 powi k \<le> x \<Longrightarrow> x < 2 powi (k + 1) \<Longrightarrow> \<bar>k\<bar> \<le> int n \<Longrightarrow> expo n x = k"
proof (induction n arbitrary: x k)
  case 0
  then show ?case by simp
next
  case (Suc n)
  have p1: "(2::real) powi (j + 1) = 2 * 2 powi j" for j :: int
    by (simp add: power_int_add)
  show ?case
  proof (cases "2 \<le> x")
    case True
    have k1: "1 \<le> k"
    proof (rule ccontr)
      assume "\<not> 1 \<le> k"
      then have "k + 1 \<le> 1" by simp
      then have "(2::real) powi (k + 1) \<le> 2 powi 1"
        by (intro power_int_increasing) simp_all
      with Suc.prems True show False by simp
    qed
    have a: "2 powi (k - 1) \<le> x / 2" using Suc.prems(2) p1 [of "k - 1"] by simp
    have b: "x / 2 < 2 powi (k - 1 + 1)" using Suc.prems(3) p1 [of k] by simp
    have c: "\<bar>k - 1\<bar> \<le> int n" using Suc.prems(4) k1 by simp
    have "expo n (x / 2) = k - 1"
      by (rule Suc.IH [OF _ a b c]) (use Suc.prems(1) in simp)
    with True show ?thesis by simp
  next
    case False
    show ?thesis
    proof (cases "x < 1")
      case True
      have k1: "k \<le> - 1"
      proof (rule ccontr)
        assume "\<not> k \<le> - 1"
        then have "0 \<le> k" by simp
        then have "(2::real) powi 0 \<le> 2 powi k"
          by (intro power_int_increasing) simp_all
        with Suc.prems True show False by simp
      qed
      have a: "2 powi (k + 1) \<le> x * 2" using Suc.prems(2) p1 [of k] by simp
      have b: "x * 2 < 2 powi (k + 1 + 1)" using Suc.prems(3) p1 [of "k + 1"] by simp
      have c: "\<bar>k + 1\<bar> \<le> int n" using Suc.prems(4) k1 by simp
      have "expo n (x * 2) = k + 1"
        by (rule Suc.IH [OF _ a b c]) (use Suc.prems(1) in simp)
      with True False show ?thesis by simp
    next
      case x1: False
      have "k \<le> 0"
      proof (rule ccontr)
        assume "\<not> k \<le> 0"
        then have "1 \<le> k" by simp
        then have "(2::real) powi 1 \<le> 2 powi k"
          by (intro power_int_increasing) simp_all
        with Suc.prems False show False by simp
      qed
      moreover have "0 \<le> k"
      proof (rule ccontr)
        assume "\<not> 0 \<le> k"
        then have "k + 1 \<le> 0" by simp
        then have "(2::real) powi (k + 1) \<le> 2 powi 0"
          by (intro power_int_increasing) simp_all
        with Suc.prems x1 show False by simp
      qed
      ultimately show ?thesis using False x1 by simp
    qed
  qed
qed

text \<open>How a rounding is evaluated: the exponent \<open>k\<close> and the significand \<open>m\<close> are given,
  and checked by computation.\<close>

lemma f32_eqI:
  assumes "x \<noteq> 0" "2 powi k \<le> \<bar>x\<bar>" "\<bar>x\<bar> < 2 powi (k + 1)" "- 126 \<le> k" "k \<le> 127"
    and "rne (x / 2 powi (k - 23)) = m" "y = of_int m * 2 powi (k - 23)"
  shows "f32 x = y"
proof -
  have "expo 300 \<bar>x\<bar> = k"
    by (rule expo_eq [OF _ assms(2,3)]) (use assms in simp_all)
  then show ?thesis using assms by (simp add: f32_def max_def)
qed

lemma f32_zero: "f32 0 = 0"
  by (simp add: f32_def)

lemmas f32_ops = fadd_def fsub_def fmul_def fdiv_def f32_zero





section \<open>Facts about the framebuffer\<close>

lemma idx_range:
  assumes "0 \<le> x" "x < W" "0 \<le> y" "y < H"
  shows "0 \<le> y * W + x \<and> y * W + x < W * H"
proof -
  have "y * 1280 + x \<le> 719 * 1280 + 1279" using assms by (simp add: W_def H_def)
  then show ?thesis using assms by (simp add: W_def H_def)
qed

lemma idx_inj:
  assumes "0 \<le> x" "x < W" "0 \<le> x'" "x' < W" "y * W + x = y' * W + x'"
  shows "x = x' \<and> y = y'"
proof -
  have "(y - y') * 1280 = x' - x" using assms by (simp add: W_def algebra_simps)
  moreover have "\<bar>x' - x\<bar> < 1280" using assms by (simp add: W_def)
  ultimately have "\<bar>(y - y') * 1280\<bar> < 1280" by simp
  then have "y - y' = 0" by (simp add: abs_mult)
  with assms show ?thesis by simp
qed

lemma fb_set_in_bounds:
  assumes "0 \<le> x" "x < W" "0 \<le> y" "y < H"
  shows "fb_set x y d c s =
     Some (if d < db s (y * W + x)
           then s\<lparr>db := (db s)(y * W + x := d), fb := (fb s)(y * W + x := c)\<rparr> else s)"
proof -
  have "\<not> (x < 0 \<or> x \<ge> W \<or> y < 0 \<or> y \<ge> H)"
    using assms by auto
  moreover have "\<not> (y * W + x < 0 \<or> y * W + x \<ge> W * H)"
    using idx_range [OF assms] by auto
  ultimately show ?thesis
    unfolding fb_set_def Let_def by (simp only: if_False if_distrib [of Some])
qed

lemma fb_set_out_of_bounds:
  "x < 0 \<or> x \<ge> W \<or> y < 0 \<or> y \<ge> H \<Longrightarrow> fb_set x y d c s = Some s"
  by (simp add: fb_set_def)

lemma fb_set_total: "\<exists>s'. fb_set x y d c s = Some s'"
proof (cases "x < 0 \<or> x \<ge> W \<or> y < 0 \<or> y \<ge> H")
  case True
  then show ?thesis by (simp add: fb_set_out_of_bounds)
next
  case False
  then have "0 \<le> x" "x < W" "0 \<le> y" "y < H" by auto
  from fb_set_in_bounds [OF this] show ?thesis by simp
qed

lemma fb_set_at:
  assumes "0 \<le> x" "x < W" "0 \<le> y" "y < H"
  shows "\<exists>s1. fb_set x' y' d' c' s = Some s1 \<and>
     (if x' = x \<and> y' = y \<and> d' < db s (y * W + x)
      then db s1 (y * W + x) = d' \<and> fb s1 (y * W + x) = c'
      else db s1 (y * W + x) = db s (y * W + x) \<and> fb s1 (y * W + x) = fb s (y * W + x))"
proof (cases "x' < 0 \<or> x' \<ge> W \<or> y' < 0 \<or> y' \<ge> H")
  case True
  then have "fb_set x' y' d' c' s = Some s" by (simp add: fb_set_out_of_bounds)
  moreover from True assms have "\<not> (x' = x \<and> y' = y)" by auto
  ultimately show ?thesis by auto
next
  case False
  then have b: "0 \<le> x'" "x' < W" "0 \<le> y'" "y' < H" by auto
  show ?thesis
  proof (cases "x' = x \<and> y' = y")
    case True
    then show ?thesis using fb_set_in_bounds [OF b, of d' c' s] by simp
  next
    case False
    then have "y' * W + x' \<noteq> y * W + x"
      using idx_inj [of x' x y' y] b assms by auto
    then show ?thesis using False fb_set_in_bounds [OF b, of d' c' s] by auto
  qed
qed

lemma write_fragments_Nil: "write_fragments [] s = Some s"
  by (simp add: write_fragments_def)

lemma write_fragments_Cons:
  "write_fragments ((x, y, d, c) # fs) s =
     (case fb_set x y d c s of None \<Rightarrow> None | Some s' \<Rightarrow> write_fragments fs s')"
  by (simp add: write_fragments_def split: option.split)

lemma write_fragments_inv:
  assumes "0 \<le> x" "x < W" "0 \<le> y" "y < H"
  shows "\<exists>s'. write_fragments fs s = Some s' \<and>
      db s' (y * W + x) \<le> db s (y * W + x) \<and>
      (\<forall>d' c'. (x, y, d', c') \<in> set fs \<longrightarrow> db s' (y * W + x) \<le> d') \<and>
      ((db s' (y * W + x) = db s (y * W + x) \<and> fb s' (y * W + x) = fb s (y * W + x)) \<or>
       (\<exists>d' c'. (x, y, d', c') \<in> set fs \<and> d' < db s (y * W + x) \<and>
           db s' (y * W + x) = d' \<and> fb s' (y * W + x) = c'))"
proof (induction fs arbitrary: s)
  case Nil
  then show ?case by (simp add: write_fragments_Nil)
next
  case (Cons fr fs)
  obtain x' y' d' c' where fr: "fr = (x', y', d', c')" by (cases fr) auto
  from fb_set_at [OF assms, of x' y' d' c' s] obtain s1 where
    s1: "fb_set x' y' d' c' s = Some s1" and
    at: "if x' = x \<and> y' = y \<and> d' < db s (y * W + x)
      then db s1 (y * W + x) = d' \<and> fb s1 (y * W + x) = c'
      else db s1 (y * W + x) = db s (y * W + x) \<and> fb s1 (y * W + x) = fb s (y * W + x)"
    by blast
  from Cons.IH [of s1] obtain s' where
    w: "write_fragments fs s1 = Some s'" and
    le: "db s' (y * W + x) \<le> db s1 (y * W + x)" and
    mn: "\<forall>d' c'. (x, y, d', c') \<in> set fs \<longrightarrow> db s' (y * W + x) \<le> d'" and
    col: "(db s' (y * W + x) = db s1 (y * W + x) \<and> fb s' (y * W + x) = fb s1 (y * W + x)) \<or>
       (\<exists>d' c'. (x, y, d', c') \<in> set fs \<and> d' < db s1 (y * W + x) \<and>
           db s' (y * W + x) = d' \<and> fb s' (y * W + x) = c')"
    by blast
  have run: "write_fragments (fr # fs) s = Some s'"
    using s1 w by (simp add: fr write_fragments_Cons)
  show ?case
  proof (cases "x' = x \<and> y' = y \<and> d' < db s (y * W + x)")
    case True
    with at have a: "db s1 (y * W + x) = d'" "fb s1 (y * W + x) = c'" by auto
    have "db s' (y * W + x) \<le> db s (y * W + x)" using le a True by simp
    moreover have "\<forall>d'' c''. (x, y, d'', c'') \<in> set (fr # fs) \<longrightarrow> db s' (y * W + x) \<le> d''"
      using mn le a by (auto simp: fr)
    moreover have "\<exists>d'' c''. (x, y, d'', c'') \<in> set (fr # fs) \<and> d'' < db s (y * W + x) \<and>
           db s' (y * W + x) = d'' \<and> fb s' (y * W + x) = c''"
      using col
    proof
      assume "db s' (y * W + x) = db s1 (y * W + x) \<and> fb s' (y * W + x) = fb s1 (y * W + x)"
      then show ?thesis using a True by (auto simp: fr)
    next
      assume "\<exists>d' c'. (x, y, d', c') \<in> set fs \<and> d' < db s1 (y * W + x) \<and>
           db s' (y * W + x) = d' \<and> fb s' (y * W + x) = c'"
      then obtain d2 c2 where "(x, y, d2, c2) \<in> set fs" "d2 < db s1 (y * W + x)"
        "db s' (y * W + x) = d2" "fb s' (y * W + x) = c2" by blast
      then show ?thesis using a True by (intro exI [of _ d2] exI [of _ c2]) auto
    qed
    ultimately show ?thesis using run by blast
  next
    case False
    with at have a: "db s1 (y * W + x) = db s (y * W + x)" "fb s1 (y * W + x) = fb s (y * W + x)"
      by auto
    have "db s' (y * W + x) \<le> db s (y * W + x)" using le a by simp
    moreover have "\<forall>d'' c''. (x, y, d'', c'') \<in> set (fr # fs) \<longrightarrow> db s' (y * W + x) \<le> d''"
      using mn le a False by (auto simp: fr)
    moreover have "(db s' (y * W + x) = db s (y * W + x) \<and> fb s' (y * W + x) = fb s (y * W + x)) \<or>
       (\<exists>d'' c''. (x, y, d'', c'') \<in> set (fr # fs) \<and> d'' < db s (y * W + x) \<and>
           db s' (y * W + x) = d'' \<and> fb s' (y * W + x) = c'')"
      using col a by auto
    ultimately show ?thesis using run by blast
  qed
qed

text \<open>
  C1, as stated, fails: two fragments of equal depth \<open>0.3\<close> written to pixel \<open>(3, 2)\<close> of a
  cleared framebuffer leave the colour of the first one, not of the second; and two
  identical triangles of depth \<open>0.3\<close> drawn one after the other leave the first
  triangle's colour at the covered pixel \<open>(0, 0)\<close>.
\<close>

theorem depth_tie_counterexample:
  "map_option (pixel_color 3 2)
     (write_fragments [(3, 2, 3 / 10, 0xFFE74C3C), (3, 2, 3 / 10, 0xFF3498DB)]
        (fb_clear 0xFF1A1A2E fb_init)) = Some 0xFFE74C3C
   \<and> map_option (pixel_color 3 2)
     (write_fragments [(3, 2, 3 / 10, 0xFFE74C3C), (3, 2, 3 / 10, 0xFF3498DB)]
        (fb_clear 0xFF1A1A2E fb_init)) \<noteq> Some 0xFF3498DB
   \<and> map_option (pixel_color 0 0)
     (Option.bind
       (draw_triangle
          \<lparr>pos = \<lparr>vx = - 1, vy = 1, vz = 0\<rparr>, depth = 3 / 10, color = 0xFFE74C3C\<rparr>
          \<lparr>pos = \<lparr>vx = - 319 / 320, vy = 1, vz = 0\<rparr>, depth = 3 / 10, color = 0xFFE74C3C\<rparr>
          \<lparr>pos = \<lparr>vx = - 1, vy = 179 / 180, vz = 0\<rparr>, depth = 3 / 10, color = 0xFFE74C3C\<rparr>
          (fb_clear 0xFF1A1A2E fb_init))
       (draw_triangle
          \<lparr>pos = \<lparr>vx = - 1, vy = 1, vz = 0\<rparr>, depth = 3 / 10, color = 0xFF3498DB\<rparr>
          \<lparr>pos = \<lparr>vx = - 319 / 320, vy = 1, vz = 0\<rparr>, depth = 3 / 10, color = 0xFF3498DB\<rparr>
          \<lparr>pos = \<lparr>vx = - 1, vy = 179 / 180, vz = 0\<rparr>, depth = 3 / 10, color = 0xFF3498DB\<rparr>))
     = Some 0xFFE74C3C"
proof -
  have fr: "map_option (pixel_color 3 2)
     (write_fragments [(3, 2, 3 / 10, 0xFFE74C3C), (3, 2, 3 / 10, 0xFF3498DB)]
        (fb_clear 0xFF1A1A2E fb_init)) = Some 0xFFE74C3C"
    by (simp add: write_fragments_def fb_set_def fb_clear_def fb_init_def pixel_color_def
        W_def H_def FLT_MAX_def Let_def)
  have tr: "map_option (pixel_color 0 0)
     (Option.bind
       (draw_triangle
          \<lparr>pos = \<lparr>vx = - 1, vy = 1, vz = 0\<rparr>, depth = 3 / 10, color = 0xFFE74C3C\<rparr>
          \<lparr>pos = \<lparr>vx = - 319 / 320, vy = 1, vz = 0\<rparr>, depth = 3 / 10, color = 0xFFE74C3C\<rparr>
          \<lparr>pos = \<lparr>vx = - 1, vy = 179 / 180, vz = 0\<rparr>, depth = 3 / 10, color = 0xFFE74C3C\<rparr>
          (fb_clear 0xFF1A1A2E fb_init))
       (draw_triangle
          \<lparr>pos = \<lparr>vx = - 1, vy = 1, vz = 0\<rparr>, depth = 3 / 10, color = 0xFF3498DB\<rparr>
          \<lparr>pos = \<lparr>vx = - 319 / 320, vy = 1, vz = 0\<rparr>, depth = 3 / 10, color = 0xFF3498DB\<rparr>
          \<lparr>pos = \<lparr>vx = - 1, vy = 179 / 180, vz = 0\<rparr>, depth = 3 / 10, color = 0xFF3498DB\<rparr>))
     = Some 0xFFE74C3C"
    by (simp add: draw_triangle_def tri_area_def bbox_def draw_pixel_def edge_values_def edge_def
        screen_x_def screen_y_def to_screen_def W_def H_def Let_def interp_depth_def
        interp_color_def chan_def to_uint8_def to_int_def pack_def upto.simps fb_set_def
        fb_clear_def fb_init_def FLT_MAX_def pixel_color_def)
  have ne: "map_option (pixel_color 3 2)
     (write_fragments [(3, 2, 3 / 10, 0xFFE74C3C), (3, 2, 3 / 10, 0xFF3498DB)]
        (fb_clear 0xFF1A1A2E fb_init)) \<noteq> Some 0xFF3498DB"
    unfolding fr by simp
  from fr ne tr show ?thesis by (intro conjI)
qed

text \<open>
  C1, amended. For every in-bounds pixel: when two fragments of the same depth \<open>d\<close>, below
  the depth stored at the pixel, are written in order, the final colour is that of the
  first (the depth test is strict, so the first write wins an exact tie); and when the
  depth \<open>d2\<close> of the second triangle's fragment is strictly smaller than \<open>d1\<close> and than the
  stored depth, the final colour is the second triangle's, in either draw order.
\<close>

theorem depth_test_first_wins:
  assumes "0 \<le> x" "x < W" "0 \<le> y" "y < H"
  shows "(d < db s (y * W + x) \<longrightarrow>
            map_option (pixel_color x y) (write_fragments [(x, y, d, c1), (x, y, d, c2)] s) = Some c1)
       \<and> (d2 < d1 \<and> d2 < db s (y * W + x) \<longrightarrow>
            map_option (pixel_color x y) (write_fragments [(x, y, d1, c1), (x, y, d2, c2)] s) = Some c2
          \<and> map_option (pixel_color x y) (write_fragments [(x, y, d2, c2), (x, y, d1, c1)] s) = Some c2)"
  by (simp add: write_fragments_Cons write_fragments_Nil fb_set_in_bounds [OF assms] pixel_color_def)

theorem depth_test_first_wins_witness:
  "(0::int) \<le> 3 \<and> 3 < W \<and> (0::int) \<le> 2 \<and> 2 < H
   \<and> (3 / 10 < db (fb_clear 0xFF1A1A2E fb_init) (2 * W + 3) \<and>
            map_option (pixel_color 3 2) (write_fragments [(3, 2, 3 / 10, 0xFFE74C3C), (3, 2, 3 / 10, 0xFF3498DB)] (fb_clear 0xFF1A1A2E fb_init)) = Some 0xFFE74C3C)
   \<and> ((1 / 10 :: real) < 9 / 10 \<and> 1 / 10 < db (fb_clear 0xFF1A1A2E fb_init) (2 * W + 3) \<and>
            map_option (pixel_color 3 2) (write_fragments [(3, 2, 9 / 10, 0xFFE74C3C), (3, 2, 1 / 10, 0xFF3498DB)] (fb_clear 0xFF1A1A2E fb_init)) = Some 0xFF3498DB
          \<and> map_option (pixel_color 3 2) (write_fragments [(3, 2, 1 / 10, 0xFF3498DB), (3, 2, 9 / 10, 0xFFE74C3C)] (fb_clear 0xFF1A1A2E fb_init)) = Some 0xFF3498DB)"
proof -
  have b: "(0::int) \<le> 3" "3 < W" "(0::int) \<le> 2" "2 < H" by (simp_all add: W_def H_def)
  have d: "3 / 10 < db (fb_clear 0xFF1A1A2E fb_init) (2 * W + 3)"
     "1 / 10 < db (fb_clear 0xFF1A1A2E fb_init) (2 * W + 3)"
    by (simp_all add: fb_clear_def W_def H_def FLT_MAX_def)
  have e: "(1 / 10 :: real) < 9 / 10" by simp
  from depth_test_first_wins [OF b, of "3 / 10" "fb_clear 0xFF1A1A2E fb_init" "0xFFE74C3C" "0xFF3498DB" "1 / 10" "9 / 10"]
    depth_test_first_wins [OF b, of "3 / 10" "fb_clear 0xFF1A1A2E fb_init" "0xFFE74C3C" "0xFF3498DB" "1 / 10" "9 / 10"]
  show ?thesis using b d e by simp
qed

section \<open>Facts about the rasterizer\<close>

lemma for_each_total:
  assumes "\<And>j s. \<exists>s'. body j s = Some s'"
  shows "\<exists>s'. for_each body js s = Some s'"
proof (induction js arbitrary: s)
  case Nil
  then show ?case by simp
next
  case (Cons j js)
  from assms [of j s] obtain s1 where "body j s = Some s1" by blast
  with Cons.IH [of s1] show ?case by simp
qed

lemma draw_pixel_total: "\<exists>s'. draw_pixel v0 v1 v2 area y x s = Some s'"
  using fb_set_total by (auto simp: draw_pixel_def Let_def split: prod.split)

lemma raster_loop_total:
  "\<exists>s'. for_each (\<lambda>y. for_each (\<lambda>x. draw_pixel v0 v1 v2 area y x) xs) ys s = Some s'"
  by (intro for_each_total draw_pixel_total)

lemma draw_triangle_total: "\<exists>s'. draw_triangle v0 v1 v2 s = Some s'"
  using raster_loop_total by (auto simp: draw_triangle_def Let_def split: prod.split)

lemma to_int_lower:
  assumes "m < 2147483648"
  shows "0 \<le> to_int (max 0 m)"
proof -
  define r where "r = max 0 m"
  have r0: "0 \<le> r" and r1: "r < 2147483648" using assms by (simp_all add: r_def)
  have "0 \<le> \<lfloor>r\<rfloor>" using r0 by simp
  moreover have "\<lfloor>r\<rfloor> \<le> 2147483647" using r1 by (simp add: floor_le_iff)
  ultimately have "to_int r = \<lfloor>r\<rfloor>" using r0 by (simp add: to_int_def Let_def)
  with \<open>0 \<le> \<lfloor>r\<rfloor>\<close> show ?thesis by (simp only: r_def)
qed

lemma to_int_upper:
  assumes n: "0 \<le> n"
  shows "to_int (min (real_of_int n) r) \<le> n"
proof -
  define m where "m = min (real_of_int n) r"
  define t where "t = (if 0 \<le> m then \<lfloor>m\<rfloor> else \<lceil>m\<rceil>)"
  have mn: "m \<le> real_of_int n" by (simp add: m_def)
  have tn: "t \<le> n"
  proof (cases "0 \<le> m")
    case True
    have "\<lfloor>m\<rfloor> \<le> \<lfloor>real_of_int n\<rfloor>"
      using mn by (rule floor_mono)
    with True show ?thesis by (simp add: t_def)
  next
    case False
    then have "m \<le> real_of_int 0" by simp
    then have "\<lceil>m\<rceil> \<le> 0" by (rule ceiling_le)
    then have "\<lceil>m\<rceil> \<le> n" using n by linarith
    with False show ?thesis by (simp add: t_def)
  qed
  have "to_int m = (if - 2147483648 \<le> t \<and> t \<le> 2147483647 then t else - 2147483648)"
    by (simp add: to_int_def t_def Let_def)
  then have "to_int m \<le> n" using tn n by (simp split: if_splits)
  then show ?thesis by (simp only: m_def)
qed

lemma bbox_clamped:
  assumes "bbox v0 v1 v2 = (minx, maxx, miny, maxy)"
    and "min (screen_x v0) (min (screen_x v1) (screen_x v2)) < 2147483648"
    and "min (screen_y v0) (min (screen_y v1) (screen_y v2)) < 2147483648"
  shows "0 \<le> minx \<and> maxx \<le> W - 1 \<and> 0 \<le> miny \<and> maxy \<le> H - 1"
proof -
  have eqs:
    "minx = to_int (max 0 (min (screen_x v0) (min (screen_x v1) (screen_x v2))))"
    "maxx = to_int (min (real_of_int (W - 1)) (max (screen_x v0) (max (screen_x v1) (screen_x v2))))"
    "miny = to_int (max 0 (min (screen_y v0) (min (screen_y v1) (screen_y v2))))"
    "maxy = to_int (min (real_of_int (H - 1)) (max (screen_y v0) (max (screen_y v1) (screen_y v2))))"
    using assms(1) unfolding bbox_def Let_def by (simp_all only: prod.inject)
  have wh: "0 \<le> W - 1" "0 \<le> H - 1" by (simp_all add: W_def H_def)
  show ?thesis
    unfolding eqs
    using to_int_lower [OF assms(2)] to_int_lower [OF assms(3)]
      to_int_upper [OF wh(1)] to_int_upper [OF wh(2)]
    by (intro conjI)
qed

text \<open>
  C2. For every triple of vertices whose screen-space edge function is less than or equal
  to zero (clockwise in screen space, or of zero area), \<open>draw_triangle\<close> writes no pixel:
  the framebuffer and the depth buffer are returned unchanged.
\<close>

theorem draw_triangle_cull:
  "tri_area v0 v1 v2 \<le> 0 \<Longrightarrow> draw_triangle v0 v1 v2 s = Some s"
  by (simp add: draw_triangle_def)

theorem draw_triangle_cull_witness:
  "tri_area \<lparr>pos = \<lparr>vx = - 1, vy = 1, vz = 0\<rparr>, depth = 0, color = 0xFFE74C3C\<rparr>
            \<lparr>pos = \<lparr>vx = - 1, vy = 179 / 180, vz = 0\<rparr>, depth = 0, color = 0xFFE74C3C\<rparr>
            \<lparr>pos = \<lparr>vx = - 319 / 320, vy = 1, vz = 0\<rparr>, depth = 0, color = 0xFFE74C3C\<rparr> \<le> 0
   \<and> draw_triangle \<lparr>pos = \<lparr>vx = - 1, vy = 1, vz = 0\<rparr>, depth = 0, color = 0xFFE74C3C\<rparr>
            \<lparr>pos = \<lparr>vx = - 1, vy = 179 / 180, vz = 0\<rparr>, depth = 0, color = 0xFFE74C3C\<rparr>
            \<lparr>pos = \<lparr>vx = - 319 / 320, vy = 1, vz = 0\<rparr>, depth = 0, color = 0xFFE74C3C\<rparr>
            (fb_clear 0xFF1A1A2E fb_init) = Some (fb_clear 0xFF1A1A2E fb_init)"
proof -
  have a: "tri_area \<lparr>pos = \<lparr>vx = - 1, vy = 1, vz = 0\<rparr>, depth = 0, color = 0xFFE74C3C\<rparr>
            \<lparr>pos = \<lparr>vx = - 1, vy = 179 / 180, vz = 0\<rparr>, depth = 0, color = 0xFFE74C3C\<rparr>
            \<lparr>pos = \<lparr>vx = - 319 / 320, vy = 1, vz = 0\<rparr>, depth = 0, color = 0xFFE74C3C\<rparr> \<le> 0"
    by (simp add: tri_area_def edge_def screen_x_def screen_y_def to_screen_def W_def H_def)
  from a draw_triangle_cull [OF a] show ?thesis by simp
qed

text \<open>
  C10, as stated, fails: the bounding box is not clamped to \<open>[0, W-1] \<times> [0, H-1]\<close> for every
  input. For the finite vertices below, which pass the cull in exact and in binary32
  arithmetic, the least screen x is above \<open>2 ^ 31\<close>, the cast \<open>(int)\<close> of it is out of range
  and \<open>minx\<close> comes out as \<open>- 2147483648\<close>.
\<close>

theorem bbox_overflow_counterexample:
  "tri_area 
      \<lparr>pos = \<lparr>vx = 8388608, vy = 1, vz = 0\<rparr>, depth = 0, color = 0xFFE74C3C\<rparr> 
      \<lparr>pos = \<lparr>vx = 16777216, vy = 1, vz = 0\<rparr>, depth = 0, color = 0xFFE74C3C\<rparr> 
      \<lparr>pos = \<lparr>vx = 8388608, vy = - 1, vz = 0\<rparr>, depth = 0, color = 0xFFE74C3C\<rparr> = 3865470566400
   \<and> bbox 
      \<lparr>pos = \<lparr>vx = 8388608, vy = 1, vz = 0\<rparr>, depth = 0, color = 0xFFE74C3C\<rparr> 
      \<lparr>pos = \<lparr>vx = 16777216, vy = 1, vz = 0\<rparr>, depth = 0, color = 0xFFE74C3C\<rparr> 
      \<lparr>pos = \<lparr>vx = 8388608, vy = - 1, vz = 0\<rparr>, depth = 0, color = 0xFFE74C3C\<rparr> = (- 2147483648, 1279, 0, 719)
   \<and> tri_area_f32 
      \<lparr>pos = \<lparr>vx = 8388608, vy = 1, vz = 0\<rparr>, depth = 0, color = 0xFFE74C3C\<rparr> 
      \<lparr>pos = \<lparr>vx = 16777216, vy = 1, vz = 0\<rparr>, depth = 0, color = 0xFFE74C3C\<rparr> 
      \<lparr>pos = \<lparr>vx = 8388608, vy = - 1, vz = 0\<rparr>, depth = 0, color = 0xFFE74C3C\<rparr> = 3865470304256
   \<and> screen_x_f32 
      \<lparr>pos = \<lparr>vx = 8388608, vy = 1, vz = 0\<rparr>, depth = 0, color = 0xFFE74C3C\<rparr> = 5368709632
   \<and> screen_x_f32 
      \<lparr>pos = \<lparr>vx = 16777216, vy = 1, vz = 0\<rparr>, depth = 0, color = 0xFFE74C3C\<rparr> = 10737418240
   \<and> screen_x_f32 
      \<lparr>pos = \<lparr>vx = 8388608, vy = - 1, vz = 0\<rparr>, depth = 0, color = 0xFFE74C3C\<rparr> = 5368709632"
proof -
  have r1: "f32 4194304 = 4194304"
    by (rule f32_eqI [where k = "22" and m = "8388608"]) (simp_all add: rne_def)
  have r2: "f32 (8388609 / 2) = 8388609 / 2"
    by (rule f32_eqI [where k = "22" and m = "8388609"]) (simp_all add: rne_def)
  have r3: "f32 1280 = 1280"
    by (rule f32_eqI [where k = "10" and m = "10485760"]) (simp_all add: rne_def)
  have r4: "f32 5368709760 = 5368709632"
    by (rule f32_eqI [where k = "32" and m = "10485761"]) (simp_all add: rne_def)
  have r5: "f32 (- (1 / 2)) = - (1 / 2)"
    by (rule f32_eqI [where k = "- 1" and m = "- 8388608"]) (simp_all add: rne_def)
  have r6: "f32 720 = 720"
    by (rule f32_eqI [where k = "9" and m = "11796480"]) (simp_all add: rne_def)
  have r7: "f32 8388608 = 8388608"
    by (rule f32_eqI [where k = "23" and m = "8388608"]) (simp_all add: rne_def)
  have r8: "f32 (16777217 / 2) = 8388608"
    by (rule f32_eqI [where k = "23" and m = "8388608"]) (simp_all add: rne_def)
  have r9: "f32 10737418240 = 10737418240"
    by (rule f32_eqI [where k = "33" and m = "10485760"]) (simp_all add: rne_def)
  have r10: "f32 (1 / 2) = 1 / 2"
    by (rule f32_eqI [where k = "- 1" and m = "8388608"]) (simp_all add: rne_def)
  have r11: "f32 1 = 1"
    by (rule f32_eqI [where k = "0" and m = "8388608"]) (simp_all add: rne_def)
  have r12: "f32 5368708608 = 5368708608"
    by (rule f32_eqI [where k = "32" and m = "10485759"]) (simp_all add: rne_def)
  have r13: "f32 3865470197760 = 3865470304256"
    by (rule f32_eqI [where k = "41" and m = "14745599"]) (simp_all add: rne_def)
  have r14: "f32 3865470304256 = 3865470304256"
    by (rule f32_eqI [where k = "41" and m = "14745599"]) (simp_all add: rne_def)
  note rs = r1 r2 r3 r4 r5 r6 r7 r8 r9 r10 r11 r12 r13 r14
  have ta: "tri_area 
      \<lparr>pos = \<lparr>vx = 8388608, vy = 1, vz = 0\<rparr>, depth = 0, color = 0xFFE74C3C\<rparr> 
      \<lparr>pos = \<lparr>vx = 16777216, vy = 1, vz = 0\<rparr>, depth = 0, color = 0xFFE74C3C\<rparr> 
      \<lparr>pos = \<lparr>vx = 8388608, vy = - 1, vz = 0\<rparr>, depth = 0, color = 0xFFE74C3C\<rparr> = 3865470566400"
    by (simp add: tri_area_def edge_def screen_x_def screen_y_def to_screen_def W_def H_def)
  have bb: "bbox 
      \<lparr>pos = \<lparr>vx = 8388608, vy = 1, vz = 0\<rparr>, depth = 0, color = 0xFFE74C3C\<rparr> 
      \<lparr>pos = \<lparr>vx = 16777216, vy = 1, vz = 0\<rparr>, depth = 0, color = 0xFFE74C3C\<rparr> 
      \<lparr>pos = \<lparr>vx = 8388608, vy = - 1, vz = 0\<rparr>, depth = 0, color = 0xFFE74C3C\<rparr> = (- 2147483648, 1279, 0, 719)"
    by (simp add: bbox_def to_int_def screen_x_def screen_y_def to_screen_def W_def H_def Let_def)
  have sx0: "screen_x_f32 
      \<lparr>pos = \<lparr>vx = 8388608, vy = 1, vz = 0\<rparr>, depth = 0, color = 0xFFE74C3C\<rparr> = 5368709632"
    by (simp add: screen_x_f32_def to_screen_f32_def W_def f32_ops rs)
  have sy0: "screen_y_f32 
      \<lparr>pos = \<lparr>vx = 8388608, vy = 1, vz = 0\<rparr>, depth = 0, color = 0xFFE74C3C\<rparr> = 0"
    by (simp add: screen_y_f32_def to_screen_f32_def H_def f32_ops rs)
  have sx1: "screen_x_f32 
      \<lparr>pos = \<lparr>vx = 16777216, vy = 1, vz = 0\<rparr>, depth = 0, color = 0xFFE74C3C\<rparr> = 10737418240"
    by (simp add: screen_x_f32_def to_screen_f32_def W_def f32_ops rs)
  have sy1: "screen_y_f32 
      \<lparr>pos = \<lparr>vx = 16777216, vy = 1, vz = 0\<rparr>, depth = 0, color = 0xFFE74C3C\<rparr> = 0"
    by (simp add: screen_y_f32_def to_screen_f32_def H_def f32_ops rs)
  have sx2: "screen_x_f32 
      \<lparr>pos = \<lparr>vx = 8388608, vy = - 1, vz = 0\<rparr>, depth = 0, color = 0xFFE74C3C\<rparr> = 5368709632"
    by (simp add: screen_x_f32_def to_screen_f32_def W_def f32_ops rs)
  have sy2: "screen_y_f32 
      \<lparr>pos = \<lparr>vx = 8388608, vy = - 1, vz = 0\<rparr>, depth = 0, color = 0xFFE74C3C\<rparr> = 720"
    by (simp add: screen_y_f32_def to_screen_f32_def H_def f32_ops rs)
  have ar: "tri_area_f32 
      \<lparr>pos = \<lparr>vx = 8388608, vy = 1, vz = 0\<rparr>, depth = 0, color = 0xFFE74C3C\<rparr> 
      \<lparr>pos = \<lparr>vx = 16777216, vy = 1, vz = 0\<rparr>, depth = 0, color = 0xFFE74C3C\<rparr> 
      \<lparr>pos = \<lparr>vx = 8388608, vy = - 1, vz = 0\<rparr>, depth = 0, color = 0xFFE74C3C\<rparr> = 3865470304256"
    by (simp add: tri_area_f32_def edge_f32_def sx0 sy0 sx1 sy1 sx2 sy2 f32_ops rs)
  from ta bb ar sx0 sx1 sx2 show ?thesis by (intro conjI)
qed

text \<open>
  C10, amended. \<open>fb_set\<close> returns without writing when \<open>x < 0\<close>, \<open>x \<ge> W\<close>, \<open>y < 0\<close> or
  \<open>y \<ge> H\<close>, and never accesses a buffer out of bounds, for any pixel coordinates; hence
  the rasterization loop makes no out-of-bounds access for any ranges of \<open>x\<close> and \<open>y\<close>
  and any \<open>area\<close>. For vertices whose screen coordinates are at most \<open>2 ^ 30\<close> in absolute
  value (so that, also after the rounding of the screen transform, the casts stay within
  \<open>int\<close>), the bounding box satisfies \<open>0 \<le> minx\<close>, \<open>maxx \<le> W - 1\<close>, \<open>0 \<le> miny\<close>,
  \<open>maxy \<le> H - 1\<close>, every pixel the loop visits lies in \<open>[0, W-1] \<times> [0, H-1]\<close> with its index
  in \<open>[0, W * H)\<close>, and \<open>draw_triangle\<close> makes no out-of-bounds access. Arithmetic is exact;
  non-finite coordinates are not covered.
\<close>

theorem draw_triangle_safe:
  "(x < 0 \<or> x \<ge> W \<or> y < 0 \<or> y \<ge> H \<longrightarrow> fb_set x y d c s = Some s)
   \<and> fb_set x y d c s \<noteq> None
   \<and> for_each (\<lambda>j. for_each (\<lambda>i. draw_pixel v0 v1 v2 area j i) xs) ys s \<noteq> None
   \<and> ((\<forall>v \<in> {v0, v1, v2}. \<bar>screen_x v\<bar> \<le> 2 ^ 30 \<and> \<bar>screen_y v\<bar> \<le> 2 ^ 30) \<longrightarrow>
        (case bbox v0 v1 v2 of
           (minx, maxx, miny, maxy) \<Rightarrow>
             0 \<le> minx \<and> maxx \<le> W - 1 \<and> 0 \<le> miny \<and> maxy \<le> H - 1
             \<and> (\<forall>px \<in> set [minx..maxx]. \<forall>py \<in> set [miny..maxy].
                   0 \<le> px \<and> px < W \<and> 0 \<le> py \<and> py < H \<and> 0 \<le> py * W + px \<and> py * W + px < W * H))
        \<and> draw_triangle v0 v1 v2 s \<noteq> None)"
proof -
  have a: "x < 0 \<or> x \<ge> W \<or> y < 0 \<or> y \<ge> H \<longrightarrow> fb_set x y d c s = Some s"
    by (simp add: fb_set_out_of_bounds)
  have b: "fb_set x y d c s \<noteq> None"
    using fb_set_total [of x y d c s] by auto
  have l: "for_each (\<lambda>j. for_each (\<lambda>i. draw_pixel v0 v1 v2 area j i) xs) ys s \<noteq> None"
    using raster_loop_total [of v0 v1 v2 area xs ys s] by auto
  have t: "draw_triangle v0 v1 v2 s \<noteq> None"
    using draw_triangle_total [of v0 v1 v2 s] by auto
  have bx: "case bbox v0 v1 v2 of
           (minx, maxx, miny, maxy) \<Rightarrow>
             0 \<le> minx \<and> maxx \<le> W - 1 \<and> 0 \<le> miny \<and> maxy \<le> H - 1
             \<and> (\<forall>px \<in> set [minx..maxx]. \<forall>py \<in> set [miny..maxy].
                   0 \<le> px \<and> px < W \<and> 0 \<le> py \<and> py < H \<and> 0 \<le> py * W + px \<and> py * W + px < W * H)"
    if h: "\<forall>v \<in> {v0, v1, v2}. \<bar>screen_x v\<bar> \<le> 2 ^ 30 \<and> \<bar>screen_y v\<bar> \<le> 2 ^ 30"
  proof -
    obtain minx maxx miny maxy where bb: "bbox v0 v1 v2 = (minx, maxx, miny, maxy)"
      by (cases "bbox v0 v1 v2") auto
    have "screen_x v0 \<le> 2 ^ 30" "screen_y v0 \<le> 2 ^ 30" using h by auto
    then have m: "min (screen_x v0) (min (screen_x v1) (screen_x v2)) < 2147483648"
      "min (screen_y v0) (min (screen_y v1) (screen_y v2)) < 2147483648"
      by simp_all
    note cl = bbox_clamped [OF bb m]
    have "\<forall>px \<in> set [minx..maxx]. \<forall>py \<in> set [miny..maxy].
            0 \<le> px \<and> px < W \<and> 0 \<le> py \<and> py < H \<and> 0 \<le> py * W + px \<and> py * W + px < W * H"
    proof (intro ballI)
      fix px py assume "px \<in> set [minx..maxx]" "py \<in> set [miny..maxy]"
      then have r: "0 \<le> px" "px < W" "0 \<le> py" "py < H" using cl by auto
      from idx_range [OF r] r
      show "0 \<le> px \<and> px < W \<and> 0 \<le> py \<and> py < H \<and> 0 \<le> py * W + px \<and> py * W + px < W * H"
        by simp
    qed
    with cl bb show ?thesis by simp
  qed
  have imp: "(\<forall>v \<in> {v0, v1, v2}. \<bar>screen_x v\<bar> \<le> 2 ^ 30 \<and> \<bar>screen_y v\<bar> \<le> 2 ^ 30) \<longrightarrow>
        (case bbox v0 v1 v2 of
           (minx, maxx, miny, maxy) \<Rightarrow>
             0 \<le> minx \<and> maxx \<le> W - 1 \<and> 0 \<le> miny \<and> maxy \<le> H - 1
             \<and> (\<forall>px \<in> set [minx..maxx]. \<forall>py \<in> set [miny..maxy].
                   0 \<le> px \<and> px < W \<and> 0 \<le> py \<and> py < H \<and> 0 \<le> py * W + px \<and> py * W + px < W * H))
        \<and> draw_triangle v0 v1 v2 s \<noteq> None"
    by (intro impI conjI bx t)
  from a b l imp show ?thesis by (intro conjI)
qed

theorem draw_triangle_safe_witness:
  "((-1::int) < 0 \<or> - 1 \<ge> W \<or> (5::int) < 0 \<or> 5 \<ge> H)
   \<and> fb_set (- 1) 5 (3 / 10) 0xFFE74C3C (fb_clear 0xFF1A1A2E fb_init) = Some (fb_clear 0xFF1A1A2E fb_init)
   \<and> screen_x 
      \<lparr>pos = \<lparr>vx = - 1, vy = 1, vz = 0\<rparr>, depth = 0, color = 0xFFE74C3C\<rparr> = 0 \<and> screen_y 
      \<lparr>pos = \<lparr>vx = - 1, vy = 1, vz = 0\<rparr>, depth = 0, color = 0xFFE74C3C\<rparr> = 0
   \<and> screen_x 
      \<lparr>pos = \<lparr>vx = - (255 / 256), vy = 1, vz = 0\<rparr>, depth = 0, color = 0xFFE74C3C\<rparr> = 5 / 2 \<and> screen_y 
      \<lparr>pos = \<lparr>vx = - (255 / 256), vy = 1, vz = 0\<rparr>, depth = 0, color = 0xFFE74C3C\<rparr> = 0
   \<and> screen_x 
      \<lparr>pos = \<lparr>vx = - 1, vy = 127 / 128, vz = 0\<rparr>, depth = 0, color = 0xFFE74C3C\<rparr> = 0 \<and> screen_y 
      \<lparr>pos = \<lparr>vx = - 1, vy = 127 / 128, vz = 0\<rparr>, depth = 0, color = 0xFFE74C3C\<rparr> = 45 / 16
   \<and> bbox 
      \<lparr>pos = \<lparr>vx = - 1, vy = 1, vz = 0\<rparr>, depth = 0, color = 0xFFE74C3C\<rparr> 
      \<lparr>pos = \<lparr>vx = - (255 / 256), vy = 1, vz = 0\<rparr>, depth = 0, color = 0xFFE74C3C\<rparr> 
      \<lparr>pos = \<lparr>vx = - 1, vy = 127 / 128, vz = 0\<rparr>, depth = 0, color = 0xFFE74C3C\<rparr> = (0, 2, 0, 2)
   \<and> (1::int) \<in> set [0..2] \<and> (2::int) \<in> set [0..2]
   \<and> (0::int) \<le> 2 * W + 1 \<and> 2 * W + 1 < W * H
   \<and> draw_triangle 
      \<lparr>pos = \<lparr>vx = - 1, vy = 1, vz = 0\<rparr>, depth = 0, color = 0xFFE74C3C\<rparr> 
      \<lparr>pos = \<lparr>vx = - (255 / 256), vy = 1, vz = 0\<rparr>, depth = 0, color = 0xFFE74C3C\<rparr> 
      \<lparr>pos = \<lparr>vx = - 1, vy = 127 / 128, vz = 0\<rparr>, depth = 0, color = 0xFFE74C3C\<rparr> (fb_clear 0xFF1A1A2E fb_init) \<noteq> None"
proof -
  have sc: "screen_x 
      \<lparr>pos = \<lparr>vx = - 1, vy = 1, vz = 0\<rparr>, depth = 0, color = 0xFFE74C3C\<rparr> = 0" "screen_y 
      \<lparr>pos = \<lparr>vx = - 1, vy = 1, vz = 0\<rparr>, depth = 0, color = 0xFFE74C3C\<rparr> = 0"
    "screen_x 
      \<lparr>pos = \<lparr>vx = - (255 / 256), vy = 1, vz = 0\<rparr>, depth = 0, color = 0xFFE74C3C\<rparr> = 5 / 2" "screen_y 
      \<lparr>pos = \<lparr>vx = - (255 / 256), vy = 1, vz = 0\<rparr>, depth = 0, color = 0xFFE74C3C\<rparr> = 0"
    "screen_x 
      \<lparr>pos = \<lparr>vx = - 1, vy = 127 / 128, vz = 0\<rparr>, depth = 0, color = 0xFFE74C3C\<rparr> = 0" "screen_y 
      \<lparr>pos = \<lparr>vx = - 1, vy = 127 / 128, vz = 0\<rparr>, depth = 0, color = 0xFFE74C3C\<rparr> = 45 / 16"
    by (simp_all add: screen_x_def screen_y_def to_screen_def W_def H_def)
  have h: "\<forall>v \<in> {
      \<lparr>pos = \<lparr>vx = - 1, vy = 1, vz = 0\<rparr>, depth = 0, color = 0xFFE74C3C\<rparr>, 
      \<lparr>pos = \<lparr>vx = - (255 / 256), vy = 1, vz = 0\<rparr>, depth = 0, color = 0xFFE74C3C\<rparr>, 
      \<lparr>pos = \<lparr>vx = - 1, vy = 127 / 128, vz = 0\<rparr>, depth = 0, color = 0xFFE74C3C\<rparr>}. \<bar>screen_x v\<bar> \<le> 2 ^ 30 \<and> \<bar>screen_y v\<bar> \<le> 2 ^ 30"
    by (simp add: sc)
  have b: "bbox 
      \<lparr>pos = \<lparr>vx = - 1, vy = 1, vz = 0\<rparr>, depth = 0, color = 0xFFE74C3C\<rparr> 
      \<lparr>pos = \<lparr>vx = - (255 / 256), vy = 1, vz = 0\<rparr>, depth = 0, color = 0xFFE74C3C\<rparr> 
      \<lparr>pos = \<lparr>vx = - 1, vy = 127 / 128, vz = 0\<rparr>, depth = 0, color = 0xFFE74C3C\<rparr> = (0, 2, 0, 2)"
    by (simp add: bbox_def to_int_def screen_x_def screen_y_def to_screen_def W_def H_def Let_def)
  have m: "(1::int) \<in> set [0..2]" "(2::int) \<in> set [0..2]" by simp_all
  have g: "(-1::int) < 0 \<or> - 1 \<ge> W \<or> (5::int) < 0 \<or> 5 \<ge> H" by simp
  from draw_triangle_safe [of "- 1" 5 "3 / 10" "0xFFE74C3C" "fb_clear 0xFF1A1A2E fb_init" "\<lparr>pos = \<lparr>vx = - 1, vy = 1, vz = 0\<rparr>, depth = 0, color = 0xFFE74C3C\<rparr>" "\<lparr>pos = \<lparr>vx = - (255 / 256), vy = 1, vz = 0\<rparr>, depth = 0, color = 0xFFE74C3C\<rparr>" "\<lparr>pos = \<lparr>vx = - 1, vy = 127 / 128, vz = 0\<rparr>, depth = 0, color = 0xFFE74C3C\<rparr>"
      4 "[0, 1]" "[0]"]
  show ?thesis using sc h b m g by simp
qed

lemma edge_sum:
  "edge bx by' cx cy px py + edge cx cy ax ay px py + edge ax ay bx by' px py
     = edge ax ay bx by' cx cy"
  by (simp add: edge_def algebra_simps)

text \<open>
  C5, as stated, fails in its second half: in the implementation's binary32 arithmetic the
  normalised weights do not sum to 1 within any rounding tolerance. For the thin triangle
  below (all three vertices on screen) the computed area is positive, the centre of pixel
  \<open>(640, 360)\<close> passes the inside test, and the three weights are about 1.1429, 0 and
  0.0112: their sum exceeds 1.1.
\<close>

theorem barycentric_f32_counterexample:
  "tri_area_f32 
      \<lparr>pos = \<lparr>vx = 3 / 4096, vy = - (3 / 2048), vz = 0\<rparr>, depth = 0, color = 0xFFE74C3C\<rparr> 
      \<lparr>pos = \<lparr>vx = - (1007 / 4096), vy = - (1577 / 4096), vz = 0\<rparr>, depth = 0, color = 0xFFE74C3C\<rparr> 
      \<lparr>pos = \<lparr>vx = 2041 / 4096, vy = 791 / 1024, vz = 0\<rparr>, depth = 0, color = 0xFFE74C3C\<rparr> = 7 / 256
   \<and> edge_values_f32 
      \<lparr>pos = \<lparr>vx = 3 / 4096, vy = - (3 / 2048), vz = 0\<rparr>, depth = 0, color = 0xFFE74C3C\<rparr> 
      \<lparr>pos = \<lparr>vx = - (1007 / 4096), vy = - (1577 / 4096), vz = 0\<rparr>, depth = 0, color = 0xFFE74C3C\<rparr> 
      \<lparr>pos = \<lparr>vx = 2041 / 4096, vy = 791 / 1024, vz = 0\<rparr>, depth = 0, color = 0xFFE74C3C\<rparr> 640 360 = (1 / 32, 0, 5 / 16384)
   \<and> weights_f32 
      \<lparr>pos = \<lparr>vx = 3 / 4096, vy = - (3 / 2048), vz = 0\<rparr>, depth = 0, color = 0xFFE74C3C\<rparr> 
      \<lparr>pos = \<lparr>vx = - (1007 / 4096), vy = - (1577 / 4096), vz = 0\<rparr>, depth = 0, color = 0xFFE74C3C\<rparr> 
      \<lparr>pos = \<lparr>vx = 2041 / 4096, vy = 791 / 1024, vz = 0\<rparr>, depth = 0, color = 0xFFE74C3C\<rparr> 640 360 = (9586981 / 8388608, 0, 5991863 / 536870912)
   \<and> (1::real) + 1 / 10 < 9586981 / 8388608 + 0 + 5991863 / 536870912"
proof -
  have r1: "f32 (3 / 8192) = 3 / 8192"
    by (rule f32_eqI [where k = "- 12" and m = "12582912"]) (simp_all add: rne_def)
  have r2: "f32 (4099 / 8192) = 4099 / 8192"
    by (rule f32_eqI [where k = "- 1" and m = "8394752"]) (simp_all add: rne_def)
  have r3: "f32 1280 = 1280"
    by (rule f32_eqI [where k = "10" and m = "10485760"]) (simp_all add: rne_def)
  have r4: "f32 (20495 / 32) = 20495 / 32"
    by (rule f32_eqI [where k = "9" and m = "10493440"]) (simp_all add: rne_def)
  have r5: "f32 (3 / 4096) = 3 / 4096"
    by (rule f32_eqI [where k = "- 11" and m = "12582912"]) (simp_all add: rne_def)
  have r6: "f32 (2051 / 4096) = 2051 / 4096"
    by (rule f32_eqI [where k = "- 1" and m = "8400896"]) (simp_all add: rne_def)
  have r7: "f32 720 = 720"
    by (rule f32_eqI [where k = "9" and m = "11796480"]) (simp_all add: rne_def)
  have r8: "f32 (92295 / 256) = 92295 / 256"
    by (rule f32_eqI [where k = "8" and m = "11813760"]) (simp_all add: rne_def)
  have r9: "f32 (- (1007 / 8192)) = - (1007 / 8192)"
    by (rule f32_eqI [where k = "- 4" and m = "- 16498688"]) (simp_all add: rne_def)
  have r10: "f32 (3089 / 8192) = 3089 / 8192"
    by (rule f32_eqI [where k = "- 2" and m = "12652544"]) (simp_all add: rne_def)
  have r11: "f32 (15445 / 32) = 15445 / 32"
    by (rule f32_eqI [where k = "8" and m = "15815680"]) (simp_all add: rne_def)
  have r12: "f32 (1577 / 8192) = 1577 / 8192"
    by (rule f32_eqI [where k = "- 3" and m = "12918784"]) (simp_all add: rne_def)
  have r13: "f32 (5673 / 8192) = 5673 / 8192"
    by (rule f32_eqI [where k = "- 1" and m = "11618304"]) (simp_all add: rne_def)
  have r14: "f32 (255285 / 512) = 255285 / 512"
    by (rule f32_eqI [where k = "8" and m = "16338240"]) (simp_all add: rne_def)
  have r15: "f32 (2041 / 8192) = 2041 / 8192"
    by (rule f32_eqI [where k = "- 3" and m = "16719872"]) (simp_all add: rne_def)
  have r16: "f32 (6137 / 8192) = 6137 / 8192"
    by (rule f32_eqI [where k = "- 1" and m = "12568576"]) (simp_all add: rne_def)
  have r17: "f32 (30685 / 32) = 30685 / 32"
    by (rule f32_eqI [where k = "9" and m = "15710720"]) (simp_all add: rne_def)
  have r18: "f32 (- (791 / 2048)) = - (791 / 2048)"
    by (rule f32_eqI [where k = "- 2" and m = "- 12959744"]) (simp_all add: rne_def)
  have r19: "f32 (233 / 2048) = 233 / 2048"
    by (rule f32_eqI [where k = "- 4" and m = "15269888"]) (simp_all add: rne_def)
  have r20: "f32 (10485 / 128) = 10485 / 128"
    by (rule f32_eqI [where k = "6" and m = "10736640"]) (simp_all add: rne_def)
  have r21: "f32 (- (2525 / 16)) = - (2525 / 16)"
    by (rule f32_eqI [where k = "7" and m = "- 10342400"]) (simp_all add: rne_def)
  have r22: "f32 (- (71325 / 256)) = - (71325 / 256)"
    by (rule f32_eqI [where k = "8" and m = "- 9129600"]) (simp_all add: rne_def)
  have r23: "f32 (180095625 / 4096) = 11255977 / 256"
    by (rule f32_eqI [where k = "15" and m = "11255977"]) (simp_all add: rne_def)
  have r24: "f32 (70695 / 512) = 70695 / 512"
    by (rule f32_eqI [where k = "7" and m = "9048960"]) (simp_all add: rne_def)
  have r25: "f32 (5095 / 16) = 5095 / 16"
    by (rule f32_eqI [where k = "8" and m = "10434560"]) (simp_all add: rne_def)
  have r26: "f32 (360191025 / 8192) = 5627985 / 128"
    by (rule f32_eqI [where k = "15" and m = "11255970"]) (simp_all add: rne_def)
  have r27: "f32 (7 / 256) = 7 / 256"
    by (rule f32_eqI [where k = "- 6" and m = "14680064"]) (simp_all add: rne_def)
  have r28: "f32 640 = 640"
    by (rule f32_eqI [where k = "9" and m = "10485760"]) (simp_all add: rne_def)
  have r29: "f32 (1281 / 2) = 1281 / 2"
    by (rule f32_eqI [where k = "9" and m = "10493952"]) (simp_all add: rne_def)
  have r30: "f32 360 = 360"
    by (rule f32_eqI [where k = "8" and m = "11796480"]) (simp_all add: rne_def)
  have r31: "f32 (721 / 2) = 721 / 2"
    by (rule f32_eqI [where k = "8" and m = "11812864"]) (simp_all add: rne_def)
  have r32: "f32 (1905 / 4) = 1905 / 4"
    by (rule f32_eqI [where k = "8" and m = "15605760"]) (simp_all add: rne_def)
  have r33: "f32 (- (70709 / 512)) = - (70709 / 512)"
    by (rule f32_eqI [where k = "7" and m = "- 9050752"]) (simp_all add: rne_def)
  have r34: "f32 (- (134700645 / 2048)) = - (4209395 / 64)"
    by (rule f32_eqI [where k = "16" and m = "- 8418790"]) (simp_all add: rne_def)
  have r35: "f32 (- (213345 / 512)) = - (213345 / 512)"
    by (rule f32_eqI [where k = "8" and m = "- 13654080"]) (simp_all add: rne_def)
  have r36: "f32 (5051 / 32) = 5051 / 32"
    by (rule f32_eqI [where k = "7" and m = "10344448"]) (simp_all add: rne_def)
  have r37: "f32 (- (1077605595 / 16384)) = - (4209397 / 64)"
    by (rule f32_eqI [where k = "16" and m = "- 8418794"]) (simp_all add: rne_def)
  have r38: "f32 (1 / 32) = 1 / 32"
    by (rule f32_eqI [where k = "- 5" and m = "8388608"]) (simp_all add: rne_def)
  have r39: "f32 (- (5095 / 16)) = - (5095 / 16)"
    by (rule f32_eqI [where k = "8" and m = "- 10434560"]) (simp_all add: rne_def)
  have r40: "f32 (35659 / 128) = 35659 / 128"
    by (rule f32_eqI [where k = "8" and m = "9128704"]) (simp_all add: rne_def)
  have r41: "f32 (- (181682605 / 2048)) = - (11355163 / 128)"
    by (rule f32_eqI [where k = "16" and m = "- 11355163"]) (simp_all add: rne_def)
  have r42: "f32 (71325 / 256) = 71325 / 256"
    by (rule f32_eqI [where k = "8" and m = "9129600"]) (simp_all add: rne_def)
  have r43: "f32 (- (10189 / 32)) = - (10189 / 32)"
    by (rule f32_eqI [where k = "8" and m = "- 10433536"]) (simp_all add: rne_def)
  have r44: "f32 (- (726730425 / 8192)) = - (11355163 / 128)"
    by (rule f32_eqI [where k = "16" and m = "- 11355163"]) (simp_all add: rne_def)
  have r45: "f32 (- (7 / 256)) = - (7 / 256)"
    by (rule f32_eqI [where k = "- 6" and m = "- 14680064"]) (simp_all add: rne_def)
  have r46: "f32 (17675 / 4096) = 17675 / 4096"
    by (rule f32_eqI [where k = "2" and m = "9049600"]) (simp_all add: rne_def)
  have r47: "f32 (70695 / 16384) = 70695 / 16384"
    by (rule f32_eqI [where k = "2" and m = "9048960"]) (simp_all add: rne_def)
  have r48: "f32 (5 / 16384) = 5 / 16384"
    by (rule f32_eqI [where k = "- 12" and m = "10485760"]) (simp_all add: rne_def)
  have r49: "f32 (8 / 7) = 9586981 / 8388608"
    by (rule f32_eqI [where k = "0" and m = "9586981"]) (simp_all add: rne_def)
  have r50: "f32 (5 / 448) = 5991863 / 536870912"
    by (rule f32_eqI [where k = "- 7" and m = "11983726"]) (simp_all add: rne_def)
  note rs = r1 r2 r3 r4 r5 r6 r7 r8 r9 r10 r11 r12 r13 r14 r15 r16 r17 r18 r19 r20 r21 r22 r23 r24 r25 r26 r27 r28 r29 r30 r31 r32 r33 r34 r35 r36 r37 r38 r39 r40 r41 r42 r43 r44 r45 r46 r47 r48 r49 r50
  have sx0: "screen_x_f32 
      \<lparr>pos = \<lparr>vx = 3 / 4096, vy = - (3 / 2048), vz = 0\<rparr>, depth = 0, color = 0xFFE74C3C\<rparr> = 20495 / 32"
    by (simp add: screen_x_f32_def to_screen_f32_def W_def f32_ops rs)
  have sy0: "screen_y_f32 
      \<lparr>pos = \<lparr>vx = 3 / 4096, vy = - (3 / 2048), vz = 0\<rparr>, depth = 0, color = 0xFFE74C3C\<rparr> = 92295 / 256"
    by (simp add: screen_y_f32_def to_screen_f32_def H_def f32_ops rs)
  have sx1: "screen_x_f32 
      \<lparr>pos = \<lparr>vx = - (1007 / 4096), vy = - (1577 / 4096), vz = 0\<rparr>, depth = 0, color = 0xFFE74C3C\<rparr> = 15445 / 32"
    by (simp add: screen_x_f32_def to_screen_f32_def W_def f32_ops rs)
  have sy1: "screen_y_f32 
      \<lparr>pos = \<lparr>vx = - (1007 / 4096), vy = - (1577 / 4096), vz = 0\<rparr>, depth = 0, color = 0xFFE74C3C\<rparr> = 255285 / 512"
    by (simp add: screen_y_f32_def to_screen_f32_def H_def f32_ops rs)
  have sx2: "screen_x_f32 
      \<lparr>pos = \<lparr>vx = 2041 / 4096, vy = 791 / 1024, vz = 0\<rparr>, depth = 0, color = 0xFFE74C3C\<rparr> = 30685 / 32"
    by (simp add: screen_x_f32_def to_screen_f32_def W_def f32_ops rs)
  have sy2: "screen_y_f32 
      \<lparr>pos = \<lparr>vx = 2041 / 4096, vy = 791 / 1024, vz = 0\<rparr>, depth = 0, color = 0xFFE74C3C\<rparr> = 10485 / 128"
    by (simp add: screen_y_f32_def to_screen_f32_def H_def f32_ops rs)
  have ar: "tri_area_f32 
      \<lparr>pos = \<lparr>vx = 3 / 4096, vy = - (3 / 2048), vz = 0\<rparr>, depth = 0, color = 0xFFE74C3C\<rparr> 
      \<lparr>pos = \<lparr>vx = - (1007 / 4096), vy = - (1577 / 4096), vz = 0\<rparr>, depth = 0, color = 0xFFE74C3C\<rparr> 
      \<lparr>pos = \<lparr>vx = 2041 / 4096, vy = 791 / 1024, vz = 0\<rparr>, depth = 0, color = 0xFFE74C3C\<rparr> = 7 / 256"
    by (simp add: tri_area_f32_def edge_f32_def sx0 sy0 sx1 sy1 sx2 sy2 f32_ops rs)
  have ev: "edge_values_f32 
      \<lparr>pos = \<lparr>vx = 3 / 4096, vy = - (3 / 2048), vz = 0\<rparr>, depth = 0, color = 0xFFE74C3C\<rparr> 
      \<lparr>pos = \<lparr>vx = - (1007 / 4096), vy = - (1577 / 4096), vz = 0\<rparr>, depth = 0, color = 0xFFE74C3C\<rparr> 
      \<lparr>pos = \<lparr>vx = 2041 / 4096, vy = 791 / 1024, vz = 0\<rparr>, depth = 0, color = 0xFFE74C3C\<rparr> 640 360 = (1 / 32, 0, 5 / 16384)"
    by (simp add: edge_values_f32_def edge_f32_def Let_def sx0 sy0 sx1 sy1 sx2 sy2 f32_ops rs)
  have wt: "weights_f32 
      \<lparr>pos = \<lparr>vx = 3 / 4096, vy = - (3 / 2048), vz = 0\<rparr>, depth = 0, color = 0xFFE74C3C\<rparr> 
      \<lparr>pos = \<lparr>vx = - (1007 / 4096), vy = - (1577 / 4096), vz = 0\<rparr>, depth = 0, color = 0xFFE74C3C\<rparr> 
      \<lparr>pos = \<lparr>vx = 2041 / 4096, vy = 791 / 1024, vz = 0\<rparr>, depth = 0, color = 0xFFE74C3C\<rparr> 640 360 = (9586981 / 8388608, 0, 5991863 / 536870912)"
    by (simp add: weights_f32_def ev ar Let_def f32_ops rs)
  have "(1::real) + 1 / 10 < 9586981 / 8388608 + 0 + 5991863 / 536870912"
    by simp
  with ar ev wt show ?thesis by (intro conjI)
qed

text \<open>
  C5, amended. In real arithmetic: for every pixel centre that passes the inside test of
  \<open>draw_triangle\<close> (none of the three edge values \<open>w0\<close>, \<open>w1\<close>, \<open>w2\<close> is negative) against a
  triangle of strictly positive screen-space area, the three edge values sum to the area,
  the weights normalised by the area are each non-negative and sum to exactly 1, and
  these are the weights with which the loop body interpolates the depth and the colour it
  passes to \<open>fb_set\<close>.
\<close>

theorem barycentric_weights:
  assumes "0 < tri_area v0 v1 v2"
    and "edge_values v0 v1 v2 x y = (w0, w1, w2)"
    and "\<not> (w0 < 0 \<or> w1 < 0 \<or> w2 < 0)"
  shows "w0 + w1 + w2 = tri_area v0 v1 v2
       \<and> 0 \<le> w0 / tri_area v0 v1 v2 \<and> 0 \<le> w1 / tri_area v0 v1 v2 \<and> 0 \<le> w2 / tri_area v0 v1 v2
       \<and> w0 / tri_area v0 v1 v2 + w1 / tri_area v0 v1 v2 + w2 / tri_area v0 v1 v2 = 1
       \<and> draw_pixel v0 v1 v2 (tri_area v0 v1 v2) y x s =
           fb_set x y
             (interp_depth (w0 / tri_area v0 v1 v2) (w1 / tri_area v0 v1 v2)
                (w2 / tri_area v0 v1 v2) v0 v1 v2)
             (interp_color (w0 / tri_area v0 v1 v2) (w1 / tri_area v0 v1 v2)
                (w2 / tri_area v0 v1 v2) v0 v1 v2) s"
proof -
  have s: "w0 + w1 + w2 = tri_area v0 v1 v2"
    using assms(2) edge_sum [of "screen_x v1" "screen_y v1" "screen_x v2" "screen_y v2"
        "real_of_int x + 0.5" "real_of_int y + 0.5" "screen_x v0" "screen_y v0"]
    by (auto simp: edge_values_def tri_area_def Let_def)
  have "w0 / tri_area v0 v1 v2 + w1 / tri_area v0 v1 v2 + w2 / tri_area v0 v1 v2
        = (w0 + w1 + w2) / tri_area v0 v1 v2"
    by (simp add: add_divide_distrib)
  also have "\<dots> = 1" using s assms(1) by simp
  finally have one:
    "w0 / tri_area v0 v1 v2 + w1 / tri_area v0 v1 v2 + w2 / tri_area v0 v1 v2 = 1" .
  have nn: "0 \<le> w0 / tri_area v0 v1 v2" "0 \<le> w1 / tri_area v0 v1 v2"
    "0 \<le> w2 / tri_area v0 v1 v2"
    using assms(1,3) by simp_all
  have dp: "draw_pixel v0 v1 v2 (tri_area v0 v1 v2) y x s =
           fb_set x y
             (interp_depth (w0 / tri_area v0 v1 v2) (w1 / tri_area v0 v1 v2)
                (w2 / tri_area v0 v1 v2) v0 v1 v2)
             (interp_color (w0 / tri_area v0 v1 v2) (w1 / tri_area v0 v1 v2)
                (w2 / tri_area v0 v1 v2) v0 v1 v2) s"
    using assms(3) by (simp add: draw_pixel_def assms(2) Let_def)
  from s nn one dp show ?thesis by (intro conjI)
qed

theorem barycentric_weights_witness:
  "tri_area 
      \<lparr>pos = \<lparr>vx = 3 / 4096, vy = - (3 / 2048), vz = 0\<rparr>, depth = 0, color = 0xFFE74C3C\<rparr> 
      \<lparr>pos = \<lparr>vx = - (1007 / 4096), vy = - (1577 / 4096), vz = 0\<rparr>, depth = 0, color = 0xFFE74C3C\<rparr> 
      \<lparr>pos = \<lparr>vx = 2041 / 4096, vy = 791 / 1024, vz = 0\<rparr>, depth = 0, color = 0xFFE74C3C\<rparr> = 225 / 8192
   \<and> edge_values 
      \<lparr>pos = \<lparr>vx = 3 / 4096, vy = - (3 / 2048), vz = 0\<rparr>, depth = 0, color = 0xFFE74C3C\<rparr> 
      \<lparr>pos = \<lparr>vx = - (1007 / 4096), vy = - (1577 / 4096), vz = 0\<rparr>, depth = 0, color = 0xFFE74C3C\<rparr> 
      \<lparr>pos = \<lparr>vx = 2041 / 4096, vy = 791 / 1024, vz = 0\<rparr>, depth = 0, color = 0xFFE74C3C\<rparr> 640 360 = (435 / 16384, 5 / 8192, 5 / 16384)
   \<and> \<not> ((435 / 16384 :: real) < 0 \<or> (5 / 8192 :: real) < 0 \<or> (5 / 16384 :: real) < 0)
   \<and> (435 / 16384 :: real) + 5 / 8192 + 5 / 16384 = 225 / 8192
   \<and> (435 / 16384 :: real) / (225 / 8192) + 5 / 8192 / (225 / 8192) + 5 / 16384 / (225 / 8192) = 1
   \<and> draw_pixel 
      \<lparr>pos = \<lparr>vx = 3 / 4096, vy = - (3 / 2048), vz = 0\<rparr>, depth = 0, color = 0xFFE74C3C\<rparr> 
      \<lparr>pos = \<lparr>vx = - (1007 / 4096), vy = - (1577 / 4096), vz = 0\<rparr>, depth = 0, color = 0xFFE74C3C\<rparr> 
      \<lparr>pos = \<lparr>vx = 2041 / 4096, vy = 791 / 1024, vz = 0\<rparr>, depth = 0, color = 0xFFE74C3C\<rparr> (tri_area 
      \<lparr>pos = \<lparr>vx = 3 / 4096, vy = - (3 / 2048), vz = 0\<rparr>, depth = 0, color = 0xFFE74C3C\<rparr> 
      \<lparr>pos = \<lparr>vx = - (1007 / 4096), vy = - (1577 / 4096), vz = 0\<rparr>, depth = 0, color = 0xFFE74C3C\<rparr> 
      \<lparr>pos = \<lparr>vx = 2041 / 4096, vy = 791 / 1024, vz = 0\<rparr>, depth = 0, color = 0xFFE74C3C\<rparr>) 360 640 (fb_clear 0xFF1A1A2E fb_init) =
       fb_set 640 360
         (interp_depth (29 / 30) (1 / 45) (1 / 90) 
      \<lparr>pos = \<lparr>vx = 3 / 4096, vy = - (3 / 2048), vz = 0\<rparr>, depth = 0, color = 0xFFE74C3C\<rparr> 
      \<lparr>pos = \<lparr>vx = - (1007 / 4096), vy = - (1577 / 4096), vz = 0\<rparr>, depth = 0, color = 0xFFE74C3C\<rparr> 
      \<lparr>pos = \<lparr>vx = 2041 / 4096, vy = 791 / 1024, vz = 0\<rparr>, depth = 0, color = 0xFFE74C3C\<rparr>)
         (interp_color (29 / 30) (1 / 45) (1 / 90) 
      \<lparr>pos = \<lparr>vx = 3 / 4096, vy = - (3 / 2048), vz = 0\<rparr>, depth = 0, color = 0xFFE74C3C\<rparr> 
      \<lparr>pos = \<lparr>vx = - (1007 / 4096), vy = - (1577 / 4096), vz = 0\<rparr>, depth = 0, color = 0xFFE74C3C\<rparr> 
      \<lparr>pos = \<lparr>vx = 2041 / 4096, vy = 791 / 1024, vz = 0\<rparr>, depth = 0, color = 0xFFE74C3C\<rparr>) (fb_clear 0xFF1A1A2E fb_init)"
proof -
  have ta: "tri_area 
      \<lparr>pos = \<lparr>vx = 3 / 4096, vy = - (3 / 2048), vz = 0\<rparr>, depth = 0, color = 0xFFE74C3C\<rparr> 
      \<lparr>pos = \<lparr>vx = - (1007 / 4096), vy = - (1577 / 4096), vz = 0\<rparr>, depth = 0, color = 0xFFE74C3C\<rparr> 
      \<lparr>pos = \<lparr>vx = 2041 / 4096, vy = 791 / 1024, vz = 0\<rparr>, depth = 0, color = 0xFFE74C3C\<rparr> = 225 / 8192"
    by (simp add: tri_area_def edge_def screen_x_def screen_y_def to_screen_def W_def H_def)
  have a: "0 < tri_area 
      \<lparr>pos = \<lparr>vx = 3 / 4096, vy = - (3 / 2048), vz = 0\<rparr>, depth = 0, color = 0xFFE74C3C\<rparr> 
      \<lparr>pos = \<lparr>vx = - (1007 / 4096), vy = - (1577 / 4096), vz = 0\<rparr>, depth = 0, color = 0xFFE74C3C\<rparr> 
      \<lparr>pos = \<lparr>vx = 2041 / 4096, vy = 791 / 1024, vz = 0\<rparr>, depth = 0, color = 0xFFE74C3C\<rparr>"
    by (simp add: ta)
  have b: "edge_values 
      \<lparr>pos = \<lparr>vx = 3 / 4096, vy = - (3 / 2048), vz = 0\<rparr>, depth = 0, color = 0xFFE74C3C\<rparr> 
      \<lparr>pos = \<lparr>vx = - (1007 / 4096), vy = - (1577 / 4096), vz = 0\<rparr>, depth = 0, color = 0xFFE74C3C\<rparr> 
      \<lparr>pos = \<lparr>vx = 2041 / 4096, vy = 791 / 1024, vz = 0\<rparr>, depth = 0, color = 0xFFE74C3C\<rparr> 640 360 = (435 / 16384, 5 / 8192, 5 / 16384)"
    by (simp add: edge_values_def edge_def screen_x_def screen_y_def to_screen_def W_def H_def Let_def)
  have c: "\<not> ((435 / 16384 :: real) < 0 \<or> (5 / 8192 :: real) < 0 \<or> (5 / 16384 :: real) < 0)"
    by simp
  from barycentric_weights [OF a b c, of "fb_clear 0xFF1A1A2E fb_init"] b c
  show ?thesis by (simp add: ta)
qed

text \<open>
  C3. For every in-bounds pixel \<open>(x, y)\<close>, \<open>fb_set\<close> writes the depth buffer and the
  framebuffer at index \<open>y * W + x\<close> exactly when the supplied depth is strictly less than
  the depth stored there, and otherwise returns both buffers unchanged; no entry at any
  other index is modified. Consequently, after any sequence of fragments the depth stored
  at the pixel is no greater than its previous value and than the depth of every fragment
  written to that pixel, and the stored colour is either the previous one (no fragment was
  accepted) or the colour of a fragment whose depth is the stored, smallest, depth.
\<close>

theorem fb_set_depth_test:
  assumes "0 \<le> x" "x < W" "0 \<le> y" "y < H"
  shows "fb_set x y d c s =
           Some (if d < db s (y * W + x)
                 then s\<lparr>db := (db s)(y * W + x := d), fb := (fb s)(y * W + x := c)\<rparr> else s)
       \<and> (\<forall>s'. fb_set x y d c s = Some s' \<longrightarrow>
             (\<forall>i. i \<noteq> y * W + x \<longrightarrow> fb s' i = fb s i \<and> db s' i = db s i))
       \<and> (\<exists>s'. write_fragments fs s = Some s' \<and>
             db s' (y * W + x) \<le> db s (y * W + x) \<and>
             (\<forall>d' c'. (x, y, d', c') \<in> set fs \<longrightarrow> db s' (y * W + x) \<le> d') \<and>
             ((db s' (y * W + x) = db s (y * W + x) \<and> fb s' (y * W + x) = fb s (y * W + x)) \<or>
              (\<exists>d' c'. (x, y, d', c') \<in> set fs \<and> d' < db s (y * W + x) \<and>
                  db s' (y * W + x) = d' \<and> fb s' (y * W + x) = c')))"
proof -
  note eq = fb_set_in_bounds [OF assms, of d c s]
  have "\<forall>s'. fb_set x y d c s = Some s' \<longrightarrow>
             (\<forall>i. i \<noteq> y * W + x \<longrightarrow> fb s' i = fb s i \<and> db s' i = db s i)"
    unfolding eq by auto
  with eq write_fragments_inv [OF assms, of fs s] show ?thesis by blast
qed

theorem fb_set_depth_test_witness:
  "(0::int) \<le> 3 \<and> 3 < W \<and> (0::int) \<le> 2 \<and> 2 < H
   \<and> 3 / 10 < db (fb_clear 0xFF1A1A2E fb_init) (2 * W + 3)
   \<and> map_option (\<lambda>s. (db s (2 * W + 3), fb s (2 * W + 3), db s 0, fb s 0))
        (fb_set 3 2 (3 / 10) 0xFFE74C3C (fb_clear 0xFF1A1A2E fb_init))
       = Some (3 / 10, 0xFFE74C3C, FLT_MAX, 0xFF1A1A2E)
   \<and> (3, 2, 1 / 10, 0xFF3498DB) \<in> set [(3, 2, 9 / 10, 0xFFE74C3C), (3, 2, 1 / 10, 0xFF3498DB :: 32 word)]
   \<and> map_option (\<lambda>s. (db s (2 * W + 3), fb s (2 * W + 3)))
        (write_fragments [(3, 2, 9 / 10, 0xFFE74C3C), (3, 2, 1 / 10, 0xFF3498DB)]
           (fb_clear 0xFF1A1A2E fb_init))
       = Some (1 / 10, 0xFF3498DB)"
proof -
  have b: "(0::int) \<le> 3" "3 < W" "(0::int) \<le> 2" "2 < H" by (simp_all add: W_def H_def)
  have d: "3 / 10 < db (fb_clear 0xFF1A1A2E fb_init) (2 * W + 3)"
    by (simp add: fb_clear_def W_def H_def FLT_MAX_def)
  have e: "db (fb_clear 0xFF1A1A2E fb_init) 0 = FLT_MAX" "fb (fb_clear 0xFF1A1A2E fb_init) 0 = 0xFF1A1A2E"
    "db (fb_clear 0xFF1A1A2E fb_init) (2 * W + 3) = FLT_MAX" "(2 * W + 3 = 0) = False"
    by (simp_all add: fb_clear_def W_def H_def)
  have f: "(9 / 10 :: real) < FLT_MAX" "(1 / 10 :: real) < FLT_MAX" by (simp_all add: FLT_MAX_def)
  from fb_set_depth_test [OF b, of "3 / 10" "0xFFE74C3C" "fb_clear 0xFF1A1A2E fb_init"
      "[(3, 2, 9 / 10, 0xFFE74C3C), (3, 2, 1 / 10, 0xFF3498DB)]"]
  have "fb_set 3 2 (3 / 10) 0xFFE74C3C (fb_clear 0xFF1A1A2E fb_init) =
           Some (if 3 / 10 < db (fb_clear 0xFF1A1A2E fb_init) (2 * W + 3)
                 then (fb_clear 0xFF1A1A2E fb_init)\<lparr>db := (db (fb_clear 0xFF1A1A2E fb_init))(2 * W + 3 := 3 / 10),
                      fb := (fb (fb_clear 0xFF1A1A2E fb_init))(2 * W + 3 := 0xFFE74C3C)\<rparr>
                 else fb_clear 0xFF1A1A2E fb_init)"
    by blast
  then show ?thesis using b d e f
    by (simp add: write_fragments_Cons write_fragments_Nil fb_set_in_bounds [OF b])
qed

section \<open>Facts about colours and shading\<close>





















lemma project_vertex_eq:
  "project_vertex mvp c v = \<lparr>pos = mul_point mvp v, depth = vz (mul_point mvp v), color = c\<rparr>"
  by (simp add: project_vertex_def mul_point_def hom_w_def Let_def)




text \<open>
  C9. \<open>draw_cube\<close> runs over the six faces; for each face the four corners are sent
  through the full MVP matrix with perspective divide (the manual transform equals the
  point transform \<open>mul_point mvp\<close>), every vertex carries as depth its own post-divide
  NDC z (\<open>depth = pos.z\<close>), and exactly two triangles are submitted, with corner indices
  (0,1,2) and then (0,2,3).
\<close>

theorem draw_cube_submits:
  "draw_cube mvp model light_dir s = for_each (draw_face mvp model light_dir) [0, 1, 2, 3, 4, 5] s
   \<and> face_vertices mvp model light_dir f =
       map (\<lambda>i. \<lparr>pos = mul_point mvp (corner f i), depth = vz (mul_point mvp (corner f i)),
                  color = face_shaded model light_dir f\<rparr>) [0, 1, 2, 3]
   \<and> (\<forall>v \<in> set (face_vertices mvp model light_dir f). depth v = vz (pos v))
   \<and> draw_face mvp model light_dir f s =
       (case draw_triangle (face_vertices mvp model light_dir f ! 0)
               (face_vertices mvp model light_dir f ! 1) (face_vertices mvp model light_dir f ! 2) s of
          None \<Rightarrow> None
        | Some s' \<Rightarrow> draw_triangle (face_vertices mvp model light_dir f ! 0)
               (face_vertices mvp model light_dir f ! 2) (face_vertices mvp model light_dir f ! 3) s')"
proof -
  have a: "draw_cube mvp model light_dir s = for_each (draw_face mvp model light_dir) [0, 1, 2, 3, 4, 5] s"
    by (simp only: draw_cube_def)
  have b: "face_vertices mvp model light_dir f =
       map (\<lambda>i. \<lparr>pos = mul_point mvp (corner f i), depth = vz (mul_point mvp (corner f i)),
                  color = face_shaded model light_dir f\<rparr>) [0, 1, 2, 3]"
    by (simp only: face_vertices_def project_vertex_eq)
  have c: "\<forall>v \<in> set (face_vertices mvp model light_dir f). depth v = vz (pos v)"
    unfolding b by simp
  have d: "draw_face mvp model light_dir f s =
       (case draw_triangle (face_vertices mvp model light_dir f ! 0)
               (face_vertices mvp model light_dir f ! 1) (face_vertices mvp model light_dir f ! 2) s of
          None \<Rightarrow> None
        | Some s' \<Rightarrow> draw_triangle (face_vertices mvp model light_dir f ! 0)
               (face_vertices mvp model light_dir f ! 2) (face_vertices mvp model light_dir f ! 3) s')"
    by (simp only: draw_face_def Let_def)
  from a b c d show ?thesis by (intro conjI)
qed

theorem draw_cube_submits_witness:
  "face_vertices identity identity \<lparr>vx = 0, vy = 0, vz = - 1\<rparr> 0 ! 2
       \<in> set (face_vertices identity identity \<lparr>vx = 0, vy = 0, vz = - 1\<rparr> 0)
   \<and> pos (face_vertices identity identity \<lparr>vx = 0, vy = 0, vz = - 1\<rparr> 0 ! 2) = \<lparr>vx = 1, vy = 1, vz = - 1\<rparr>
   \<and> depth (face_vertices identity identity \<lparr>vx = 0, vy = 0, vz = - 1\<rparr> 0 ! 2) = - 1"
proof -
  have m: "face_vertices identity identity \<lparr>vx = 0, vy = 0, vz = - 1\<rparr> 0 ! 2
       \<in> set (face_vertices identity identity \<lparr>vx = 0, vy = 0, vz = - 1\<rparr> 0)"
    by (simp add: face_vertices_def)
  have mp: "mul_point identity (corner 0 2) = \<lparr>vx = 1, vy = 1, vz = - 1\<rparr>"
    by (simp add: mul_point_def hom_w_def identity_apply corner_def cube_verts_def cube_quads_def Let_def)
  note th = draw_cube_submits [of identity identity "\<lparr>vx = 0, vy = 0, vz = - 1\<rparr>"
      "fb_clear 0xFF1A1A2E fb_init" 0]
  from th m have dz: "depth (face_vertices identity identity \<lparr>vx = 0, vy = 0, vz = - 1\<rparr> 0 ! 2)
      = vz (pos (face_vertices identity identity \<lparr>vx = 0, vy = 0, vz = - 1\<rparr> 0 ! 2))"
    by blast
  from th have "face_vertices identity identity \<lparr>vx = 0, vy = 0, vz = - 1\<rparr> 0 ! 2
      = \<lparr>pos = mul_point identity (corner 0 2), depth = vz (mul_point identity (corner 0 2)),
          color = face_shaded identity \<lparr>vx = 0, vy = 0, vz = - 1\<rparr> 0\<rparr>"
    by simp
  then have "pos (face_vertices identity identity \<lparr>vx = 0, vy = 0, vz = - 1\<rparr> 0 ! 2) = \<lparr>vx = 1, vy = 1, vz = - 1\<rparr>"
    by (simp add: mp)
  with m dz show ?thesis by simp
qed

end
